theory Spec2Isabelle
  imports Main "HOL-Library.Signed_Division"
begin

section \<open>The world tick engine of World.cpp\<close>

text \<open>
  A shallow embedding of \<^verbatim>\<open>src/src/World.cpp\<close>. Every function of the file that the
  verified properties talk about is translated into a HOL function with the name it has in
  the source. Integer division and remainder are the truncating ones of C++
  (\<open>sdiv\<close> and \<open>smod\<close>), the clock readings a function takes from the operating system
  are arguments, and everything declared outside World.cpp (constants of
  \<^verbatim>\<open>tuningConstants.hpp\<close>, methods of Character, Player, Monster, NPC, the script
  host, the tables) is either a parameter or a definition marked as modelled from the
  specification.
\<close>

subsection \<open>The in-game day anchor (getNextIGDayTime, lines 610 to 631)\<close>

definition secondsInHour :: int where
  "secondsInHour = 60 * 60"

text \<open>
  \<^verbatim>\<open>realSecondsInIllarionDay = secondsInHour * 24 / illarionTimeFactor\<close>. The constant
  \<^verbatim>\<open>illarionTimeFactor\<close> is declared outside World.cpp and is a parameter here.
\<close>

definition realSecondsInIllarionDay :: "int \<Rightarrow> int" where
  "realSecondsInIllarionDay illarionTimeFactor = (secondsInHour * 24) sdiv illarionTimeFactor"

text \<open>
  The value of \<^verbatim>\<open>curr_unixtime\<close> when it is handed to \<^verbatim>\<open>from_time_t\<close> (lines 612
  to 623). \<open>now\<close> is the result of \<^verbatim>\<open>time(nullptr)\<close> and \<open>tm_isdst\<close> the field of the
  same name that \<^verbatim>\<open>localtime\<close> returns. With a time factor of 0 the constant
  expression of line 620 divides by zero and does not compile; with a time factor
  beyond 86400 the constant is 0 and the remainder of line 622 divides by zero: there the
  function has no value.
\<close>

definition nextIGDayUnixtime :: "int \<Rightarrow> int \<Rightarrow> int \<Rightarrow> int \<Rightarrow> int option" where
  "nextIGDayUnixtime illarionTimeFactor illarionBirthTime now tm_isdst =
     (if illarionTimeFactor = 0 \<or> realSecondsInIllarionDay illarionTimeFactor = 0 then None
      else
        Some (let curr_unixtime = (if tm_isdst \<noteq> 0 then now + secondsInHour else now);
                  curr_unixtime = curr_unixtime - illarionBirthTime;
                  curr_unixtime =
                    curr_unixtime - curr_unixtime smod realSecondsInIllarionDay illarionTimeFactor;
                  curr_unixtime = curr_unixtime + realSecondsInIllarionDay illarionTimeFactor
              in curr_unixtime))"

text \<open>
  Lines 625 to 630: the anchor on the steady clock. Time points are counted in
  nanoseconds; \<open>scheduler_ref\<close> and \<open>realtime_ref\<close> are the readings of
  \<^verbatim>\<open>steady_clock::now()\<close> and \<^verbatim>\<open>system_clock::now()\<close>.
\<close>

definition from_time_t :: "int \<Rightarrow> int" where
  "from_time_t t = t * 1000000000"

definition getNextIGDayTime :: "int \<Rightarrow> int \<Rightarrow> int \<Rightarrow> int \<Rightarrow> int \<Rightarrow> int \<Rightarrow> int option" where
  "getNextIGDayTime illarionTimeFactor illarionBirthTime now tm_isdst scheduler_ref realtime_ref =
     (case nextIGDayUnixtime illarionTimeFactor illarionBirthTime now tm_isdst of
        None \<Rightarrow> None
      | Some curr_unixtime \<Rightarrow>
          (let diff = from_time_t curr_unixtime - realtime_ref
           in Some (scheduler_ref + diff)))"

subsection \<open>Player commands (executeUserCommand, lines 659 to 675)\<close>

text \<open>
  The pattern \<^verbatim>\<open>^!([^ ]+) ?(.*)?$\<close> is matched against the whole input by
  \<^verbatim>\<open>std::regex_match\<close> with the ECMAScript grammar. In that grammar \<^verbatim>\<open>.\<close> matches every
  character but a line terminator (line feed and carriage return for \<^verbatim>\<open>char\<close>), and
  \<^verbatim>\<open>[^ ]\<close> matches every character but the space.
\<close>

definition isLineTerminator :: "char \<Rightarrow> bool" where
  "isLineTerminator c = (c = CHR 0x0A \<or> c = CHR 0x0D)"

text \<open>\<^verbatim>\<open>(.*)?$\<close> at the end of the pattern: the rest of the input, if \<^verbatim>\<open>.\<close> matches all of it.\<close>

definition matchRest :: "string \<Rightarrow> bool" where
  "matchRest r = list_all (\<lambda>c. \<not> isLineTerminator c) r"

text \<open>
  The backtracking search of the matcher after the leading \<^verbatim>\<open>!\<close>: the greedy group
  \<^verbatim>\<open>([^ ]+)\<close> is tried with \<open>k\<close> characters, the longest first; for each length the
  optional space is tried taken, then skipped; the first alternative under which the rest
  of the pattern matches gives the two groups.
\<close>

fun matchName :: "nat \<Rightarrow> string \<Rightarrow> (string \<times> string) option" where
  "matchName 0 s = None"
| "matchName (Suc k) s =
     (let name = take (Suc k) s; r = drop (Suc k) s in
      if length name = Suc k \<and> list_all (\<lambda>c. c \<noteq> CHR '' '') name then
        (if r \<noteq> [] \<and> hd r = CHR '' '' \<and> matchRest (tl r) then Some (name, tl r)
         else if matchRest r then Some (name, r)
         else matchName k s)
      else matchName k s)"

definition regex_match :: "string \<Rightarrow> (string \<times> string) option" where
  "regex_match input =
     (case input of
        [] \<Rightarrow> None
      | c # s \<Rightarrow> if c = CHR ''!'' then matchName (length s) s else None)"

text \<open>
  A handler (\<^verbatim>\<open>CommandFunction\<close>) is called for its effect on the world; its boolean result
  is dropped by the caller. The command map is a finite map from names to handlers.
\<close>

type_synonym ('w, 'p) CommandFunction = "'w \<Rightarrow> 'p \<Rightarrow> string \<Rightarrow> 'w"

type_synonym ('w, 'p) CommandMap = "string \<rightharpoonup> ('w, 'p) CommandFunction"

definition executeUserCommand ::
  "'w \<Rightarrow> 'p \<Rightarrow> string \<Rightarrow> ('w, 'p) CommandMap \<Rightarrow> bool \<times> 'w" where
  "executeUserCommand this user input commands =
     (case regex_match input of
        None \<Rightarrow> (False, this)
      | Some (m1, m2) \<Rightarrow>
          (case commands m1 of
             None \<Rightarrow> (False, this)
           | Some handler \<Rightarrow> (True, handler this user m2)))"

subsection \<open>Positions, directions and ranges\<close>

text \<open>
  The types \<^verbatim>\<open>position\<close>, \<^verbatim>\<open>direction\<close> and \<^verbatim>\<open>Range\<close> are declared outside
  World.cpp. The fields of a position are integers; the direction enumeration has the
  eight compass directions that World.cpp names in its two \<^verbatim>\<open>switch\<close> statements, and
  the two vertical ones.
\<close>

record position =
  pos_x :: int
  pos_y :: int
  pos_z :: int

datatype direction =
    dir_north | dir_northeast | dir_east | dir_southeast
  | dir_south | dir_southwest | dir_west | dir_northwest
  | dir_up | dir_down

text \<open>
  Modelled from the spec: \<^verbatim>\<open>position::move\<close> is not in World.cpp. The specification's
  wander scenario fixes east as the direction of growing \<open>x\<close>; north is taken as the
  direction of falling \<open>y\<close>, and up and down change \<open>z\<close> only.
\<close>

fun move_position :: "position \<Rightarrow> direction \<Rightarrow> position" where
  "move_position p dir_north = p\<lparr>pos_y := pos_y p - 1\<rparr>"
| "move_position p dir_northeast = p\<lparr>pos_y := pos_y p - 1, pos_x := pos_x p + 1\<rparr>"
| "move_position p dir_east = p\<lparr>pos_x := pos_x p + 1\<rparr>"
| "move_position p dir_southeast = p\<lparr>pos_y := pos_y p + 1, pos_x := pos_x p + 1\<rparr>"
| "move_position p dir_south = p\<lparr>pos_y := pos_y p + 1\<rparr>"
| "move_position p dir_southwest = p\<lparr>pos_y := pos_y p + 1, pos_x := pos_x p - 1\<rparr>"
| "move_position p dir_west = p\<lparr>pos_x := pos_x p - 1\<rparr>"
| "move_position p dir_northwest = p\<lparr>pos_y := pos_y p - 1, pos_x := pos_x p - 1\<rparr>"
| "move_position p dir_up = p\<lparr>pos_z := pos_z p + 1\<rparr>"
| "move_position p dir_down = p\<lparr>pos_z := pos_z p - 1\<rparr>"

record Range =
  radius :: int
  zRadius :: int

text \<open>
  \<^verbatim>\<open>Coordinate\<close> is a 16-bit signed integer: line 221 builds a position from three
  \<^verbatim>\<open>int16_t\<close>. Storing an \<^verbatim>\<open>int\<close> in a \<^verbatim>\<open>Coordinate\<close>, as lines 390 and 391 do,
  keeps the value modulo \<open>2^16\<close>, read as signed.
\<close>

definition to_Coordinate :: "int \<Rightarrow> int" where
  "to_Coordinate v = (v + 2 ^ 15) mod 2 ^ 16 - 2 ^ 15"

subsection \<open>Characters\<close>

datatype character_type = player | monster | npc

text \<open>
  The classes Character, Player, Monster, NPC and SpawnPoint are declared outside
  World.cpp; the records hold the members that World.cpp reads or writes. The effects bag
  is represented by the number of \<^verbatim>\<open>effects.checkEffects()\<close> calls it has received.
\<close>

record Character =
  char_id :: nat
  char_type :: character_type
  pos :: position
  alive :: bool
  actionPoints :: int
  fightPoints :: int
  effects :: nat
  onRoute :: bool

record Player = Character +
  online :: bool
  lastkeepalive :: int
  lastsavetime :: int

record SpawnPoint =
  spawn_pos :: position
  spawn_range :: int
  spawnrange :: int
  min_spawntime :: int
  max_spawntime :: int
  spawnall :: bool

record Monster = Character +
  monsterType :: nat
  lastTargetPosition :: position
  lastTargetSeen :: bool
  enemyid :: nat
  enemytype :: character_type
  spawn :: "SpawnPoint option"
  left_tool :: nat
  right_tool :: nat

record NPC = Character +
  hasScript :: bool

text \<open>
  Calls that leave World.cpp and whose effect is not part of this model are recorded, in
  the order in which they are made, as events. Logger calls are left out.
\<close>

datatype event =
    WorkoutCommands nat
  | CheckFightMode nat
  | CheckAction nat
  | Save nat
  | ShutdownSend nat
  | RemovePlayerFromField position
  | OnLogout nat
  | LogOutPlayersPushBack nat
  | SendRemoveCharToVisiblePlayers nat position
  | UpdatePlayerList
  | ScriptSetTarget nat
  | FightingSetTarget nat
  | EnemyNear nat nat
  | EnemyOnSight nat nat
  | CharacterAttacks nat
  | AbortRoute nat
  | KillMonster nat
  | SendCharacterMoveToAllVisiblePlayers nat
  | OnSpawn nat
  | NextCycle nat
  | NpcAbortRoute nat
  | IncreaseHitpoints nat
  | SendSpinToAllVisiblePlayers nat

subsection \<open>What World.cpp takes from outside\<close>

text \<open>
  The constants of \<^verbatim>\<open>tuningConstants.hpp\<close>, the clock and timer readings of one tick
  and the results of the methods, tables and scripts that World.cpp calls but does not
  define. They are parameters: a theorem about a function that takes an \<open>env\<close> holds for
  every value of each of them.
\<close>

record env =
  MIN_AP_UPDATE :: int
  CLIENT_TIMEOUT :: int
  PLAYER_SAVE_INTERVAL :: int
  MAX_ACT_RANGE :: int
  MONSTERVIEWRANGE :: int
  NP_WALK_COST :: int
  MAX_AP :: int
  MAX_FP :: int
  RANGEUP :: int
  withinZRadius :: "int \<Rightarrow> int \<Rightarrow> int \<Rightarrow> bool"
  time_now :: int
  intervalExceeded :: bool
  spawnNew :: "SpawnPoint \<Rightarrow> Monster list"
  canAct :: "Character \<Rightarrow> bool"
  canAttack :: "Monster \<Rightarrow> bool"
  canFight :: "Monster \<Rightarrow> bool"
  monsterExists :: "nat \<Rightarrow> bool"
  monsterScript :: "nat \<Rightarrow> bool"
  canselfheal :: "nat \<Rightarrow> bool"
  weaponRange :: "nat \<rightharpoonup> int"
  scriptSetTarget :: "Monster \<Rightarrow> Character list \<Rightarrow> bool \<times> Character option"
  fightingSetTarget :: "Monster \<Rightarrow> Character list \<Rightarrow> Character option"
  enemyNear :: "Monster \<Rightarrow> Character \<Rightarrow> bool"
  enemyOnSight :: "Monster \<Rightarrow> Character \<Rightarrow> bool"
  turn :: "Monster \<Rightarrow> position \<Rightarrow> Monster"
  characterAttacks :: "Monster \<Rightarrow> bool"
  performStep :: "Monster \<Rightarrow> position \<Rightarrow> Monster"
  makesRandomStep :: "Monster \<Rightarrow> bool"
  heal :: "Monster \<Rightarrow> Monster"
  randomDirection :: "Monster \<Rightarrow> direction"
  makeMove :: "Monster \<Rightarrow> bool \<times> Monster"
  npcMakeMove :: "NPC \<Rightarrow> bool \<times> NPC"

subsection \<open>The world\<close>

text \<open>
  The members of World that World.cpp uses. The three populations are lists in the
  iteration order of \<^verbatim>\<open>for_each\<close>.
\<close>

record World =
  ap :: int
  usedAP :: int
  Players :: "Player list"
  Monsters :: "Monster list"
  Npc :: "NPC list"
  newMonsters :: "Monster list"
  SpawnList :: "SpawnPoint list"
  spawnEnabled :: bool
  LostNpcs :: "nat list"
  trace :: "event list"

subsection \<open>Methods of the collaborators, modelled from the specification\<close>

text \<open>
  Modelled from the spec: the range test of the population index is not in World.cpp. The
  specification measures every proximity in the Chebyshev metric \<open>max(|dx|, |dy|)\<close>. How
  the index uses \<^verbatim>\<open>zRadius\<close> is not in World.cpp and the specification has no word on
  it: the vertical test is the parameter \<open>withinZRadius\<close>, applied to \<^verbatim>\<open>zRadius\<close>, the
  \<open>z\<close> of the centre and the \<open>z\<close> of the character.
\<close>

definition inRange :: "env \<Rightarrow> position \<Rightarrow> Range \<Rightarrow> position \<Rightarrow> bool" where
  "inRange env p rng q =
     (\<bar>pos_x q - pos_x p\<bar> \<le> radius rng \<and> \<bar>pos_y q - pos_y p\<bar> \<le> radius rng
      \<and> withinZRadius env (zRadius rng) (pos_z p) (pos_z q))"

text \<open>
  Modelled from the spec: \<^verbatim>\<open>Character::increaseActionPoints\<close> is not in World.cpp.
  The specification describes the action-point reservoir as an integer that is capped;
  the cap is a parameter.
\<close>

definition increaseActionPoints :: "env \<Rightarrow> int \<Rightarrow> 'a Character_scheme \<Rightarrow> 'a Character_scheme" where
  "increaseActionPoints env n c = c\<lparr>actionPoints := min (MAX_AP env) (actionPoints c + n)\<rparr>"

text \<open>
  Modelled from the spec: \<^verbatim>\<open>Character::increaseFightPoints\<close> is not in World.cpp.
  The fight-point reservoir is advanced as the action-point reservoir is, up to its own cap.
\<close>

definition increaseFightPoints :: "env \<Rightarrow> int \<Rightarrow> 'a Character_scheme \<Rightarrow> 'a Character_scheme" where
  "increaseFightPoints env n c = c\<lparr>fightPoints := min (MAX_FP env) (fightPoints c + n)\<rparr>"

text \<open>
  Modelled from the spec: \<^verbatim>\<open>effects.checkEffects()\<close> ticks the effects bag once.
\<close>

definition checkEffects :: "'a Character_scheme \<Rightarrow> 'a Character_scheme" where
  "checkEffects c = c\<lparr>effects := Suc (effects c)\<rparr>"

text \<open>
  Modelled from the spec: \<^verbatim>\<open>Player::save\<close> persists the player; a saved player has a
  new \<^verbatim>\<open>lastSaveTime\<close>, a player that is not saved retains the old one.
\<close>

definition save :: "int \<Rightarrow> Player \<Rightarrow> Player" where
  "save now p = p\<lparr>lastsavetime := now\<rparr>"

text \<open>
  Modelled from the spec: \<^verbatim>\<open>Character::move\<close>, the monster moves in the given direction.
\<close>

definition move :: "direction \<Rightarrow> Monster \<Rightarrow> Monster" where
  "move dir m = m\<lparr>pos := move_position (pos m) dir\<rparr>"

text \<open>
  Modelled from the spec: the population index answers a spatial range query with all
  live characters within a position and radius
  (\<^verbatim>\<open>findAllAliveCharactersInRangeOf\<close>), in iteration order.
\<close>

definition findAllAliveCharactersInRangeOf ::
  "env \<Rightarrow> 'a Character_scheme list \<Rightarrow> position \<Rightarrow> Range \<Rightarrow> 'a Character_scheme list" where
  "findAllAliveCharactersInRangeOf env population p rng =
     filter (\<lambda>c. inRange env p rng (pos c) \<and> alive c) population"

text \<open>
  Modelled from the spec: \<^verbatim>\<open>getPlayersInRangeOf\<close> returns the players within the
  radius of a position; the vertical radius is the default one of a \<^verbatim>\<open>Range\<close>.
\<close>

definition getPlayersInRangeOf :: "env \<Rightarrow> World \<Rightarrow> position \<Rightarrow> int \<Rightarrow> Player list" where
  "getPlayersInRangeOf env w p r =
     filter (\<lambda>c. inRange env p \<lparr>radius = r, zRadius = RANGEUP env\<rparr> (pos c)) (Players w)"

text \<open>
  Modelled from the spec: \<^verbatim>\<open>erase\<close> of a population is not in World.cpp; it removes
  the character with the given id.
\<close>

definition erase :: "nat \<Rightarrow> 'a Character_scheme list \<Rightarrow> 'a Character_scheme list" where
  "erase i population = filter (\<lambda>c. char_id c \<noteq> i) population"

text \<open>
  Modelled from the spec: \<^verbatim>\<open>killMonster\<close> is not in World.cpp; it removes the monster
  from the population and broadcasts the removal.
\<close>

definition killMonster :: "nat \<Rightarrow> World \<Rightarrow> World" where
  "killMonster i w = w\<lparr>Monsters := erase i (Monsters w), trace := trace w @ [KillMonster i]\<rparr>"

text \<open>
  Modelled from the spec: \<^verbatim>\<open>deleteAllLostNPC\<close> is not in World.cpp; it purges the
  NPCs marked lost.
\<close>

definition deleteAllLostNPC :: "World \<Rightarrow> World" where
  "deleteAllLostNPC w =
     w\<lparr>Npc := filter (\<lambda>n. char_id n \<notin> set (LostNpcs w)) (Npc w), LostNpcs := []\<rparr>"

subsection \<open>isPlayerNearby and getTargetsInRange (lines 242 to 245 and 550 to 562)\<close>

definition isPlayerNearby :: "env \<Rightarrow> World \<Rightarrow> 'a Character_scheme \<Rightarrow> bool" where
  "isPlayerNearby env w character =
     (let players = getPlayersInRangeOf env w (pos character) (MAX_ACT_RANGE env)
      in players \<noteq> [])"

text \<open>
  The result vector holds \<^verbatim>\<open>Character*\<close>: the players found, then the monsters found
  that \<^verbatim>\<open>remove_copy_if\<close> does not drop.
\<close>

definition getTargetsInRange :: "env \<Rightarrow> World \<Rightarrow> position \<Rightarrow> int \<Rightarrow> Character list" where
  "getTargetsInRange env w p r =
     (let rng = \<lparr>radius = r, zRadius = 0\<rparr>;
          players = findAllAliveCharactersInRangeOf env (Players w) p rng;
          monsters = findAllAliveCharactersInRangeOf env (Monsters w) p rng;
          targets = map Character.truncate players
      in targets @ map Character.truncate (filter (\<lambda>m. \<not> (p = pos m)) monsters))"

subsection \<open>The tick driver and the player pass (lines 91 to 168)\<close>

text \<open>\<^verbatim>\<open>static_cast<int>\<close> of a 64-bit value: the value modulo \<open>2^32\<close>, read as signed.\<close>

definition static_cast_int :: "int \<Rightarrow> int" where
  "static_cast_int v = (v + 2 ^ 31) mod 2 ^ 32 - 2 ^ 31"

text \<open>
  The body of the lambda of \<^verbatim>\<open>checkPlayers\<close> for one player. The result is the
  player, the flag \<^verbatim>\<open>savedOnePlayer\<close>, whether the player was pushed to
  \<^verbatim>\<open>lostPlayers\<close>, and the calls made.
\<close>

definition checkPlayer :: "env \<Rightarrow> int \<Rightarrow> bool \<Rightarrow> Player \<Rightarrow> Player \<times> bool \<times> bool \<times> event list" where
  "checkPlayer env a savedOnePlayer p =
     (let now = time_now env in
      if online p then
        (let temptime = now - lastkeepalive p in
         if temptime \<ge> 0 \<and> temptime \<le> CLIENT_TIMEOUT env then
           (let p1 = increaseActionPoints env a p;
                p2 = increaseFightPoints env a p1;
                evs = [WorkoutCommands (char_id p), CheckFightMode (char_id p), CheckAction (char_id p)];
                p3 = checkEffects p2;
                timeSinceSave = now - lastsavetime p3
            in if \<not> savedOnePlayer \<and> timeSinceSave \<ge> PLAYER_SAVE_INTERVAL env
               then (save now p3, True, False, evs @ [Save (char_id p)])
               else (p3, savedOnePlayer, False, evs))
         else (p, savedOnePlayer, False, [ShutdownSend (char_id p)]))
      else (p, savedOnePlayer, True,
            [RemovePlayerFromField (pos p), OnLogout (char_id p), LogOutPlayersPushBack (char_id p),
             SendRemoveCharToVisiblePlayers (char_id p) (pos p)]))"

text \<open>
  \<^verbatim>\<open>Players.for_each\<close> with that lambda: the players after the loop,
  \<^verbatim>\<open>lostPlayers\<close>, and the calls made.
\<close>

fun forEachPlayer :: "env \<Rightarrow> int \<Rightarrow> bool \<Rightarrow> Player list \<Rightarrow> Player list \<times> Player list \<times> event list" where
  "forEachPlayer env a savedOnePlayer [] = ([], [], [])"
| "forEachPlayer env a savedOnePlayer (p # ps) =
     (case checkPlayer env a savedOnePlayer p of
        (p', savedOnePlayer', lost, evs) \<Rightarrow>
          (case forEachPlayer env a savedOnePlayer' ps of
             (ps', lostPlayers, evs') \<Rightarrow>
               (p' # ps', (if lost then [p'] else []) @ lostPlayers, evs @ evs')))"

definition checkPlayers :: "env \<Rightarrow> World \<Rightarrow> World" where
  "checkPlayers env w =
     (case forEachPlayer env (ap w) False (Players w) of
        (ps, lostPlayers, evs) \<Rightarrow>
          w\<lparr>Players := fold (\<lambda>p. erase (char_id p)) lostPlayers ps,
            trace := trace w @ evs @ (if lostPlayers \<noteq> [] then [UpdatePlayerList] else [])\<rparr>)"

subsection \<open>The monster pass (lines 247 to 548)\<close>

text \<open>Lines 285 to 294 and 466 to 475: the attack range from the two tools.\<close>

definition attackRange :: "env \<Rightarrow> Monster \<Rightarrow> int" where
  "attackRange env m =
     (case weaponRange env (right_tool m) of
        Some r \<Rightarrow> r
      | None \<Rightarrow> (case weaponRange env (left_tool m) of Some r \<Rightarrow> r | None \<Rightarrow> 1))"

text \<open>
  The target choice that appears four times (lines 301, 340, 482, 501): the monster's
  script first, the global fighting script if there is no script or it declines.
\<close>

definition setTarget :: "env \<Rightarrow> Monster \<Rightarrow> Character list \<Rightarrow> Character option \<times> event list" where
  "setTarget env m candidates =
     (if monsterScript env (monsterType m) then
        (case scriptSetTarget env m candidates of
           (True, target) \<Rightarrow> (target, [ScriptSetTarget (char_id m)])
         | (False, _) \<Rightarrow> (fightingSetTarget env m candidates,
                          [ScriptSetTarget (char_id m), FightingSetTarget (char_id m)]))
      else (fightingSetTarget env m candidates, [FightingSetTarget (char_id m)]))"

text \<open>The two \<^verbatim>\<open>switch\<close> statements of lines 396 to 423 and 427 to 454.\<close>

fun mirrorEastWest :: "direction \<Rightarrow> direction" where
  "mirrorEastWest dir_northeast = dir_northwest"
| "mirrorEastWest dir_east = dir_west"
| "mirrorEastWest dir_southeast = dir_southwest"
| "mirrorEastWest dir_southwest = dir_southeast"
| "mirrorEastWest dir_west = dir_east"
| "mirrorEastWest dir_northwest = dir_northeast"
| "mirrorEastWest dir = dir"

fun mirrorNorthSouth :: "direction \<Rightarrow> direction" where
  "mirrorNorthSouth dir_north = dir_south"
| "mirrorNorthSouth dir_northeast = dir_southeast"
| "mirrorNorthSouth dir_southeast = dir_northeast"
| "mirrorNorthSouth dir_south = dir_north"
| "mirrorNorthSouth dir_southwest = dir_northwest"
| "mirrorNorthSouth dir_northwest = dir_southwest"
| "mirrorNorthSouth dir = dir"

text \<open>Lines 387 to 456: the direction after the mirroring at the border of the spawn area.\<close>

definition mirrorAtSpawnBorder :: "SpawnPoint option \<Rightarrow> position \<Rightarrow> direction \<Rightarrow> direction" where
  "mirrorAtSpawnBorder sp p dir =
     (case sp of
        None \<Rightarrow> dir
      | Some s \<Rightarrow>
          (let newpos = move_position p dir;
               yoffs = to_Coordinate (pos_y (spawn_pos s) - pos_y newpos);
               xoffs = to_Coordinate (pos_x (spawn_pos s) - pos_x newpos);
               dir1 = (if \<bar>xoffs\<bar> > spawn_range s then mirrorEastWest dir else dir);
               dir2 = (if \<bar>yoffs\<bar> > spawn_range s then mirrorNorthSouth dir1 else dir1)
           in dir2))"

text \<open>Lines 383 to 461: the random step.\<close>

definition randomStep :: "env \<Rightarrow> Monster \<Rightarrow> Monster" where
  "randomStep env m =
     (let dir = mirrorAtSpawnBorder (spawn m) (pos m) (randomDirection env m);
          m1 = move dir m
      in increaseActionPoints env (- NP_WALK_COST env) m1)"

text \<open>Lines 368 to 463, entered when \<^verbatim>\<open>canMakeRandomStep\<close> is true.\<close>

definition makeRandomStep :: "env \<Rightarrow> Monster \<Rightarrow> Monster" where
  "makeRandomStep env m =
     (let hasDefinition = monsterExists env (monsterType m) in
      if makesRandomStep env m \<and> hasDefinition \<and> canselfheal env (monsterType m)
      then heal env m
      else randomStep env m)"

text \<open>Lines 332 to 464, entered when \<^verbatim>\<open>has_attacked\<close> is false.\<close>

definition approachOrWander ::
  "env \<Rightarrow> World \<Rightarrow> Monster list \<Rightarrow> Monster list \<Rightarrow> Monster \<Rightarrow> Monster \<times> event list" where
  "approachOrWander env w seen todo m =
     (let foundMonster = monsterExists env (monsterType m);
          targets = getTargetsInRange env (w\<lparr>Monsters := seen @ m # todo\<rparr>) (pos m)
                      (MONSTERVIEWRANGE env) in
      if targets \<noteq> [] \<and> canAttack env m then
        (case setTarget env m targets of
           (None, evs) \<Rightarrow> (makeRandomStep env m, evs)
         | (Some targetChar, evs) \<Rightarrow>
             (let m1 = m\<lparr>lastTargetSeen := True, lastTargetPosition := pos targetChar\<rparr> in
              if foundMonster then
                (if monsterScript env (monsterType m) then
                   (if enemyOnSight env m1 targetChar
                    then (m1, evs @ [EnemyOnSight (char_id m) (char_id targetChar)])
                    else (performStep env m1 (pos targetChar),
                          evs @ [EnemyOnSight (char_id m) (char_id targetChar)]))
                 else (performStep env m1 (pos targetChar), evs))
              else (makeRandomStep env m1, evs)))
      else if lastTargetSeen m then (performStep env m (lastTargetPosition m), [])
      else (makeRandomStep env m, []))"

text \<open>Lines 280 to 465: the monster is not on a route.\<close>

definition notOnRoute ::
  "env \<Rightarrow> World \<Rightarrow> Monster list \<Rightarrow> Monster list \<Rightarrow> Monster \<Rightarrow> Monster \<times> event list" where
  "notOnRoute env w seen todo m0 =
     (let foundMonster = monsterExists env (monsterType m0);
          m = (if pos m0 = lastTargetPosition m0 then m0\<lparr>lastTargetSeen := False\<rparr> else m0);
          temp = getTargetsInRange env (w\<lparr>Monsters := seen @ m # todo\<rparr>) (pos m)
                   (attackRange env m) in
      if temp \<noteq> [] \<and> canAttack env m then
        (case setTarget env m temp of
           (None, evs) \<Rightarrow>
             (case approachOrWander env w seen todo m of (m', evs') \<Rightarrow> (m', evs @ evs'))
         | (Some target, evs) \<Rightarrow>
             (let m1 = m\<lparr>enemyid := char_id target, enemytype := char_type target,
                         lastTargetPosition := pos target, lastTargetSeen := True\<rparr>;
                  called = foundMonster \<and> monsterScript env (monsterType m);
                  evs1 = evs @ (if called then [EnemyNear (char_id m) (char_id target)] else [])
              in if called \<and> enemyNear env m1 target then (m1, evs1)
                 else
                   (let m2 = turn env m1 (pos target) in
                    if canFight env m2 then
                      (if characterAttacks env m2 then (m2, evs1 @ [CharacterAttacks (char_id m)])
                       else (case approachOrWander env w seen todo m2 of
                               (m', evs') \<Rightarrow> (m', evs1 @ [CharacterAttacks (char_id m)] @ evs')))
                    else (m2, evs1))))
      else approachOrWander env w seen todo m)"

text \<open>Lines 465 to 522: the monster is on a route.\<close>

definition onRouteTravel ::
  "env \<Rightarrow> World \<Rightarrow> Monster list \<Rightarrow> Monster list \<Rightarrow> Monster \<Rightarrow> Monster \<times> event list" where
  "onRouteTravel env w seen todo m =
     (let foundMonster = monsterExists env (monsterType m);
          called = foundMonster \<and> monsterScript env (monsterType m);
          temp = getTargetsInRange env (w\<lparr>Monsters := seen @ m # todo\<rparr>) (pos m)
                   (attackRange env m);
          evs1 = (if temp \<noteq> [] then
                    (case setTarget env m temp of
                       (None, evs) \<Rightarrow> evs
                     | (Some target, evs) \<Rightarrow>
                         evs @ (if called then [EnemyNear (char_id m) (char_id target)] else []))
                  else []);
          temp2 = getTargetsInRange env (w\<lparr>Monsters := seen @ m # todo\<rparr>) (pos m)
                    (MONSTERVIEWRANGE env);
          evs2 = (if temp2 \<noteq> [] then
                    (case setTarget env m temp2 of
                       (None, evs) \<Rightarrow> evs
                     | (Some target, evs) \<Rightarrow>
                         evs @ (if called then [EnemyOnSight (char_id m) (char_id target)] else []))
                  else [])
      in case makeMove env m of
           (True, m') \<Rightarrow> (m', evs1 @ evs2)
         | (False, m') \<Rightarrow>
             (m'\<lparr>onRoute := False\<rparr>,
              evs1 @ evs2 @ (if called then [AbortRoute (char_id m)] else [])))"

text \<open>
  The body of the lambda of \<^verbatim>\<open>checkMonsters\<close> for one monster (lines 264 to 527). The
  result is the monster, the calls made, and whether the monster was pushed to
  \<^verbatim>\<open>deadMonsters\<close>. The monster is changed in place: while it is handled, the
  population holds the monsters visited before it (\<open>seen\<close>, in their new state), the
  monster as it is at that moment, and the monsters still to visit (\<open>todo\<close>), and
  this is the population that a target search of the monster sees.
\<close>

definition checkMonster ::
  "env \<Rightarrow> World \<Rightarrow> Monster list \<Rightarrow> Monster list \<Rightarrow> Monster
     \<Rightarrow> Monster \<times> event list \<times> bool" where
  "checkMonster env w seen todo m0 =
     (if alive m0 then
        (let m = checkEffects (increaseFightPoints env (ap w) (increaseActionPoints env (ap w) m0)) in
         if canAct env (Character.truncate m) then
           (if \<not> isPlayerNearby env w m \<and> \<not> onRoute m then (m, [], False)
            else if \<not> onRoute m then
              (case notOnRoute env w seen todo m of (m', evs) \<Rightarrow> (m', evs, False))
            else
              (case onRouteTravel env w seen todo m of (m', evs) \<Rightarrow> (m', evs, False)))
         else (m, [], False))
      else (m0, [], True))"

text \<open>
  \<^verbatim>\<open>Monsters.for_each\<close> with that lambda. The result is the population after the
  loop, \<^verbatim>\<open>deadMonsters\<close>, and the calls made.
\<close>

fun forEachMonster ::
  "env \<Rightarrow> World \<Rightarrow> Monster list \<Rightarrow> Monster list \<Rightarrow> Monster list \<times> Monster list \<times> event list" where
  "forEachMonster env w seen [] = (seen, [], [])"
| "forEachMonster env w seen (m # todo) =
     (case checkMonster env w seen todo m of
        (m', evs, dead) \<Rightarrow>
          (case forEachMonster env w (seen @ [m']) todo of
             (ms, deadMonsters, evs') \<Rightarrow>
               (ms, (if dead then [m'] else []) @ deadMonsters, evs @ evs')))"

text \<open>Lines 248 to 256: the spawn check.\<close>

definition spawnCheck :: "env \<Rightarrow> World \<Rightarrow> World" where
  "spawnCheck env w =
     (if intervalExceeded env then
        (if spawnEnabled w
         then w\<lparr>newMonsters := newMonsters w @ concat (map (spawnNew env) (SpawnList w))\<rparr>
         else w)
      else w)"

text \<open>Lines 258 to 260: the member \<^verbatim>\<open>ap\<close> is decremented in place when it exceeds 1.\<close>

definition throttle :: "World \<Rightarrow> World" where
  "throttle w = (if ap w > 1 then w\<lparr>ap := ap w - 1\<rparr> else w)"

text \<open>Lines 533 to 545: one buffered monster enters the population.\<close>

definition insertNewMonster :: "env \<Rightarrow> Monster \<Rightarrow> World \<Rightarrow> World" where
  "insertNewMonster env m w =
     w\<lparr>Monsters := Monsters w @ [m],
       trace := trace w @ [SendCharacterMoveToAllVisiblePlayers (char_id m)]
                @ (if monsterExists env (monsterType m) \<and> monsterScript env (monsterType m)
                   then [OnSpawn (char_id m)] else [])\<rparr>"

definition checkMonsters :: "env \<Rightarrow> World \<Rightarrow> World" where
  "checkMonsters env w0 =
     (let w1 = spawnCheck env w0;
          w2 = throttle w1
      in case forEachMonster env w2 [] (Monsters w2) of
           (ms, deadMonsters, evs) \<Rightarrow>
             (let w3 = w2\<lparr>Monsters := ms, trace := trace w2 @ evs\<rparr>;
                  w4 = fold (\<lambda>m. killMonster (char_id m)) deadMonsters w3;
                  w5 = fold (insertNewMonster env) (newMonsters w4) w4
              in w5\<lparr>newMonsters := []\<rparr>))"

subsection \<open>The NPC pass (lines 564 to 591)\<close>

text \<open>
  The body of the lambda of \<^verbatim>\<open>checkNPC\<close> for one NPC. Modelled from the spec: the
  hitpoints of a dead NPC are reset to the maximum, which makes it alive again.
\<close>

definition checkOneNPC :: "env \<Rightarrow> World \<Rightarrow> NPC \<Rightarrow> NPC \<times> event list" where
  "checkOneNPC env w n0 =
     (if alive n0 then
        (let n = checkEffects (increaseActionPoints env (ap w) n0) in
         if \<not> isPlayerNearby env w n \<and> \<not> onRoute n then (n, [])
         else if canAct env (Character.truncate n) \<and> hasScript n then
           (if onRoute n then
              (case npcMakeMove env n of
                 (True, n') \<Rightarrow> (n', [NextCycle (char_id n)])
               | (False, n') \<Rightarrow>
                   (n'\<lparr>onRoute := False\<rparr>, [NextCycle (char_id n), NpcAbortRoute (char_id n)]))
            else (n, [NextCycle (char_id n)]))
         else (n, []))
      else (n0\<lparr>alive := True\<rparr>,
            [IncreaseHitpoints (char_id n0), SendSpinToAllVisiblePlayers (char_id n0)]))"

definition checkNPC :: "env \<Rightarrow> World \<Rightarrow> World" where
  "checkNPC env w0 =
     (let w = deleteAllLostNPC w0;
          results = map (checkOneNPC env w) (Npc w)
      in w\<lparr>Npc := map fst results, trace := trace w @ concat (map snd results)\<rparr>)"

subsection \<open>turntheworld (lines 91 to 106)\<close>

text \<open>
  \<open>elapsed\<close> is the number of milliseconds between \<^verbatim>\<open>startTime\<close> and the reading of
  the steady clock at the call.
\<close>

definition turntheworld :: "env \<Rightarrow> int \<Rightarrow> World \<Rightarrow> World" where
  "turntheworld env elapsed w0 =
     (let w = w0\<lparr>ap := static_cast_int (elapsed sdiv MIN_AP_UPDATE env - usedAP w0)\<rparr> in
      if ap w > 0 then
        (let w1 = w\<lparr>usedAP := usedAP w + ap w\<rparr>;
             w2 = checkPlayers env w1;
             w3 = checkMonsters env w2
         in checkNPC env w3)
      else w)"

subsection \<open>initRespawns (lines 193 to 240)\<close>

text \<open>
  Everything thrown inside the \<^verbatim>\<open>try\<close> block that the handler for
  \<^verbatim>\<open>std::exception\<close> catches is a value of this type.
\<close>

datatype exception = QueryFailed | ConversionError | LoadFailed

text \<open>
  A row of the result as the database delivers it: a column is an integer or a boolean, or
  \<open>None\<close> for SQL NULL. \<^verbatim>\<open>row[...].as<T>()\<close> converts a column to the C++ type
  \<open>T\<close> and throws on NULL and on a value outside the range of \<open>T\<close>.
\<close>

record Row =
  spp_id :: "int option"
  spp_x :: "int option"
  spp_y :: "int option"
  spp_z :: "int option"
  spp_range :: "int option"
  spp_spawnrange :: "int option"
  spp_minspawntime :: "int option"
  spp_maxspawntime :: "int option"
  spp_spawnall :: "bool option"

definition as_integer :: "int \<Rightarrow> int \<Rightarrow> int option \<Rightarrow> exception + int" where
  "as_integer lo hi field =
     (case field of
        None \<Rightarrow> Inl ConversionError
      | Some v \<Rightarrow> if lo \<le> v \<and> v \<le> hi then Inr v else Inl ConversionError)"

definition as_uint32 :: "int option \<Rightarrow> exception + int" where
  "as_uint32 = as_integer 0 (2 ^ 32 - 1)"

definition as_int16 :: "int option \<Rightarrow> exception + int" where
  "as_int16 = as_integer (- (2 ^ 15)) (2 ^ 15 - 1)"

definition as_int :: "int option \<Rightarrow> exception + int" where
  "as_int = as_integer (- (2 ^ 31)) (2 ^ 31 - 1)"

definition as_uint16 :: "int option \<Rightarrow> exception + int" where
  "as_uint16 = as_integer 0 (2 ^ 16 - 1)"

definition as_bool :: "bool option \<Rightarrow> exception + bool" where
  "as_bool field = (case field of None \<Rightarrow> Inl ConversionError | Some b \<Rightarrow> Inr b)"

definition andThen :: "exception + 'a \<Rightarrow> ('a \<Rightarrow> exception + 'b) \<Rightarrow> exception + 'b" where
  "andThen r f = (case r of Inl e \<Rightarrow> Inl e | Inr v \<Rightarrow> f v)"

text \<open>
  The body of the loop over the rows (lines 220 to 228). \<^verbatim>\<open>SpawnPoint::load\<close> is not
  in World.cpp: \<open>load\<close> is a parameter that returns the loaded spawn point or throws.
\<close>

definition loadSpawnPoint ::
  "(int \<Rightarrow> SpawnPoint \<Rightarrow> exception + SpawnPoint) \<Rightarrow> Row \<Rightarrow> exception + SpawnPoint" where
  "loadSpawnPoint load row =
     andThen (as_uint32 (spp_id row)) (\<lambda>spawnId.
     andThen (as_int16 (spp_x row)) (\<lambda>x.
     andThen (as_int16 (spp_y row)) (\<lambda>y.
     andThen (as_int16 (spp_z row)) (\<lambda>z.
     andThen (as_int (spp_range row)) (\<lambda>rng.
     andThen (as_uint16 (spp_spawnrange row)) (\<lambda>srng.
     andThen (as_uint16 (spp_minspawntime row)) (\<lambda>mn.
     andThen (as_uint16 (spp_maxspawntime row)) (\<lambda>mx.
     andThen (as_bool (spp_spawnall row)) (\<lambda>sall.
       load spawnId
         \<lparr>spawn_pos = \<lparr>pos_x = x, pos_y = y, pos_z = z\<rparr>, spawn_range = rng, spawnrange = srng,
          min_spawntime = mn, max_spawntime = mx, spawnall = sall\<rparr>)))))))))"

text \<open>
  The loop: the spawn points pushed to \<^verbatim>\<open>SpawnList\<close> so far, and the exception that
  left the loop, if one did.
\<close>

fun loadRows ::
  "(int \<Rightarrow> SpawnPoint \<Rightarrow> exception + SpawnPoint) \<Rightarrow> Row list \<Rightarrow> SpawnPoint list
     \<Rightarrow> exception option \<times> SpawnPoint list" where
  "loadRows load [] spawns = (None, spawns)"
| "loadRows load (row # rows) spawns =
     (case loadSpawnPoint load row of
        Inl e \<Rightarrow> (Some e, spawns)
      | Inr newSpawn \<Rightarrow> loadRows load rows (spawns @ [newSpawn]))"

text \<open>
  \<open>remove\<close> stands for \<^verbatim>\<open>Monster::remove\<close>, \<open>execute\<close> for the outcome of
  \<^verbatim>\<open>query.execute()\<close>: the rows, or the exception it throws.
\<close>

definition initRespawns ::
  "(Monster \<Rightarrow> Monster) \<Rightarrow> exception + Row list \<Rightarrow> (int \<Rightarrow> SpawnPoint \<Rightarrow> exception + SpawnPoint)
     \<Rightarrow> World \<Rightarrow> bool \<times> World" where
  "initRespawns remove execute load w0 =
     (let w = w0\<lparr>Monsters := map (\<lambda>m. (remove m)\<lparr>spawn := None\<rparr>) (Monsters w0), SpawnList := []\<rparr>
      in case execute of
           Inl e \<Rightarrow> (False, w)
         | Inr results \<Rightarrow>
             if results \<noteq> [] then
               (case loadRows load results [] of
                  (Some e, spawns) \<Rightarrow> (False, w\<lparr>SpawnList := spawns\<rparr>)
                | (None, spawns) \<Rightarrow> (True, w\<lparr>SpawnList := spawns\<rparr>))
             else (False, w))"

subsection \<open>What the properties of the player pass speak about\<close>

text \<open>
  The specification's words for the player that the save of a tick goes to: online, within
  the keepalive window, and with \<open>now - lastSaveTime \<ge> PLAYER_SAVE_INTERVAL\<close>.
\<close>

definition dueForSave :: "env \<Rightarrow> Player \<Rightarrow> bool" where
  "dueForSave env p =
     (online p \<and> 0 \<le> time_now env - lastkeepalive p
      \<and> time_now env - lastkeepalive p \<le> CLIENT_TIMEOUT env
      \<and> time_now env - lastsavetime p \<ge> PLAYER_SAVE_INTERVAL env)"

text \<open>The players on which \<^verbatim>\<open>save()\<close> was called, in the order of the calls.\<close>

fun savedPlayers :: "event list \<Rightarrow> nat list" where
  "savedPlayers [] = []"
| "savedPlayers (Save i # es) = i # savedPlayers es"
| "savedPlayers (e # es) = savedPlayers es"

subsection \<open>Example values\<close>

text \<open>
  Concrete surroundings, characters and worlds on which the functions are evaluated. The
  constants are examples: one action point per 100 milliseconds as in the specification's
  stall scenario, the others small numbers.
\<close>

definition example_env :: env where
  "example_env =
     \<lparr>MIN_AP_UPDATE = 100, CLIENT_TIMEOUT = 50, PLAYER_SAVE_INTERVAL = 600, MAX_ACT_RANGE = 9,
      MONSTERVIEWRANGE = 11, NP_WALK_COST = 5, MAX_AP = 21, MAX_FP = 21, RANGEUP = 2,
      withinZRadius = (\<lambda>zr pz qz. \<bar>qz - pz\<bar> \<le> zr),
      time_now = 10000, intervalExceeded = False, spawnNew = (\<lambda>s. []),
      canAct = (\<lambda>c. True), canAttack = (\<lambda>m. True), canFight = (\<lambda>m. True),
      monsterExists = (\<lambda>t. True), monsterScript = (\<lambda>t. False), canselfheal = (\<lambda>t. False),
      weaponRange = (\<lambda>i. None), scriptSetTarget = (\<lambda>m cs. (False, None)),
      fightingSetTarget = (\<lambda>m cs. None), enemyNear = (\<lambda>m c. False),
      enemyOnSight = (\<lambda>m c. False), turn = (\<lambda>m p. m), characterAttacks = (\<lambda>m. True),
      performStep = (\<lambda>m p. m), makesRandomStep = (\<lambda>m. True), heal = (\<lambda>m. m),
      randomDirection = (\<lambda>m. dir_east), makeMove = (\<lambda>m. (True, m)),
      npcMakeMove = (\<lambda>n. (True, n))\<rparr>"

definition empty_world :: World where
  "empty_world =
     \<lparr>ap = 0, usedAP = 0, Players = [], Monsters = [], Npc = [], newMonsters = [],
      SpawnList = [], spawnEnabled = True, LostNpcs = [], trace = []\<rparr>"

definition example_position :: "int \<Rightarrow> int \<Rightarrow> int \<Rightarrow> position" where
  "example_position a b c = \<lparr>pos_x = a, pos_y = b, pos_z = c\<rparr>"

definition example_player :: "nat \<Rightarrow> position \<Rightarrow> bool \<Rightarrow> int \<Rightarrow> Player" where
  "example_player i p live saved =
     \<lparr>char_id = i, char_type = player, pos = p, alive = live, actionPoints = 0,
      fightPoints = 0, effects = 0, onRoute = False, online = True, lastkeepalive = 9990,
      lastsavetime = saved\<rparr>"

definition example_spawn :: SpawnPoint where
  "example_spawn =
     \<lparr>spawn_pos = example_position 100 100 0, spawn_range = 5, spawnrange = 3,
      min_spawntime = 1, max_spawntime = 2, spawnall = False\<rparr>"

definition wide_spawn :: SpawnPoint where
  "wide_spawn =
     \<lparr>spawn_pos = example_position (- 16384) 100 0, spawn_range = 32767, spawnrange = 3,
      min_spawntime = 1, max_spawntime = 2, spawnall = False\<rparr>"

definition example_monster :: "nat \<Rightarrow> position \<Rightarrow> bool \<Rightarrow> Monster" where
  "example_monster i p live =
     \<lparr>char_id = i, char_type = monster, pos = p, alive = live, actionPoints = 0,
      fightPoints = 0, effects = 0, onRoute = False, monsterType = 1,
      lastTargetPosition = example_position 0 0 0, lastTargetSeen = False, enemyid = 0,
      enemytype = player, spawn = Some example_spawn, left_tool = 0, right_tool = 0\<rparr>"

definition example_npc :: "nat \<Rightarrow> position \<Rightarrow> NPC" where
  "example_npc i p =
     \<lparr>char_id = i, char_type = npc, pos = p, alive = True, actionPoints = 0,
      fightPoints = 0, effects = 0, onRoute = False, hasScript = True\<rparr>"

definition example_row :: "int option \<Rightarrow> Row" where
  "example_row a =
     \<lparr>spp_id = Some 1, spp_x = a, spp_y = Some 100, spp_z = Some 0, spp_range = Some 5,
      spp_spawnrange = Some 3, spp_minspawntime = Some 1, spp_maxspawntime = Some 2,
      spp_spawnall = Some False\<rparr>"

text \<open>A handler that puts its argument in front of the world, which is a list of strings.\<close>

definition example_handler :: "(string list, unit) CommandFunction" where
  "example_handler w u a = a # w"

definition example_commands :: "(string list, unit) CommandMap" where
  "example_commands = [''say'' \<mapsto> example_handler, ''a b'' \<mapsto> example_handler]"

text \<open>
  A world for the target search around \<open>(100, 100, 0)\<close>: a live and a dead player next to
  it, a monster on it, a monster two fields away and a monster one level above it.
\<close>

definition targets_world :: World where
  "targets_world =
     empty_world
       \<lparr>Players := [example_player 1 (example_position 101 100 0) True 0,
                    example_player 2 (example_position 100 101 0) False 0],
        Monsters := [example_monster 10 (example_position 100 100 0) True,
                     example_monster 11 (example_position 102 99 0) True,
                     example_monster 12 (example_position 100 100 1) True]\<rparr>"

text \<open>
  The specification's staggered saves scenario: three players, all online, seen ten
  seconds ago and last saved at time 0, long before the save interval.
\<close>

definition players_world :: World where
  "players_world =
     empty_world
       \<lparr>ap := 1,
        Players := [example_player 1 (example_position 10 10 0) True 0,
                    example_player 2 (example_position 20 20 0) True 0,
                    example_player 3 (example_position 30 30 0) True 0]\<rparr>"

text \<open>
  A world without players: a live monster and a live NPC, both with empty reservoirs and
  neither on a route.
\<close>

definition lonely_world :: World where
  "lonely_world =
     empty_world
       \<lparr>Monsters := [example_monster 10 (example_position 50 50 0) True],
        Npc := [example_npc 20 (example_position 60 60 0)]\<rparr>"

text \<open>
  The specification's graceful timeout scenario: a player online whose last keepalive is
  one second older than \<^verbatim>\<open>CLIENT_TIMEOUT\<close>.
\<close>

definition timeout_world :: World where
  "timeout_world =
     empty_world
       \<lparr>ap := 1,
        Players := [(example_player 1 (example_position 10 10 0) True 9999)
                      \<lparr>lastkeepalive := 10000 - 51\<rparr>]\<rparr>"

text \<open>
  The specification's script-overridden combat scenario: a monster with a weapon of range
  2, a player at distance 2, a monster script that chooses the player as target and whose
  \<^verbatim>\<open>enemyNear\<close> returns true.
\<close>

definition scripted_env :: env where
  "scripted_env =
     example_env
       \<lparr>monsterScript := (\<lambda>t. True), weaponRange := (\<lambda>i. if i = 7 then Some 2 else None),
        scriptSetTarget := (\<lambda>m cs. (True, case cs of [] \<Rightarrow> None | c # x \<Rightarrow> Some c)),
        enemyNear := (\<lambda>m c. True)\<rparr>"

definition combat_world :: World where
  "combat_world =
     empty_world
       \<lparr>ap := 1,
        Players := [example_player 1 (example_position 52 50 0) True 9999],
        Monsters := [(example_monster 10 (example_position 50 50 0) True)\<lparr>right_tool := 7\<rparr>]\<rparr>"

section \<open>Verified properties\<close>

subsection \<open>Arithmetic of C++\<close>

lemma sdiv_eq_div_nonneg: "0 \<le> (a::int) \<Longrightarrow> 0 < b \<Longrightarrow> a sdiv b = a div b"
  by (simp add: signed_divide_int_def sgn_if)

lemma static_cast_int_id: "- (2 ^ 31) \<le> v \<Longrightarrow> v < 2 ^ 31 \<Longrightarrow> static_cast_int v = v"
  by (simp add: static_cast_int_def)

subsection \<open>The in-game day anchor\<close>

lemma realSecondsInIllarionDay_pos:
  "0 < f \<Longrightarrow> f \<le> 86400 \<Longrightarrow> 0 < realSecondsInIllarionDay f"
  by (simp add: realSecondsInIllarionDay_def secondsInHour_def sdiv_eq_div_nonneg
      pos_imp_zdiv_pos_iff)

lemma nextIGDayUnixtime_sdiv:
  "f \<noteq> 0 \<Longrightarrow> realSecondsInIllarionDay f \<noteq> 0 \<Longrightarrow>
   nextIGDayUnixtime f b t dst =
     Some ((((if dst \<noteq> 0 then t + 3600 else t) - b) sdiv realSecondsInIllarionDay f + 1)
            * realSecondsInIllarionDay f)"
  by (simp add: nextIGDayUnixtime_def Let_def secondsInHour_def minus_smod_eq_sdiv_mult
      algebra_simps)

lemma nextIGDayUnixtime_floor:
  assumes "0 < f" and "f \<le> 86400" and "b \<le> (if dst \<noteq> 0 then t + 3600 else t)"
  shows "nextIGDayUnixtime f b t dst =
     Some ((((if dst \<noteq> 0 then t + 3600 else t) - b) div (86400 div f) + 1) * (86400 div f))"
proof -
  from assms have r: "realSecondsInIllarionDay f = 86400 div f"
    by (simp add: realSecondsInIllarionDay_def secondsInHour_def sdiv_eq_div_nonneg)
  from assms have p: "0 < realSecondsInIllarionDay f"
    by (simp add: realSecondsInIllarionDay_pos)
  from assms have "0 \<le> (if dst \<noteq> 0 then t + 3600 else t) - b"
    by simp
  with p have
    "((if dst \<noteq> 0 then t + 3600 else t) - b) sdiv realSecondsInIllarionDay f
       = ((if dst \<noteq> 0 then t + 3600 else t) - b) div realSecondsInIllarionDay f"
    by (simp only: sdiv_eq_div_nonneg)
  moreover from assms p have
    "nextIGDayUnixtime f b t dst =
     Some ((((if dst \<noteq> 0 then t + 3600 else t) - b) sdiv realSecondsInIllarionDay f + 1)
            * realSecondsInIllarionDay f)"
    by (intro nextIGDayUnixtime_sdiv) simp_all
  ultimately show ?thesis
    by (simp only: r)
qed

lemma nextIGDayUnixtime_no_value:
  "86400 < f \<Longrightarrow> nextIGDayUnixtime f b t dst = None"
  by (simp add: nextIGDayUnixtime_def realSecondsInIllarionDay_def secondsInHour_def
      sdiv_eq_div_nonneg)

lemma getNextIGDayTime_anchor:
  "getNextIGDayTime f b t dst scheduler_ref realtime_ref =
     map_option (\<lambda>u. scheduler_ref + (u * 1000000000 - realtime_ref))
       (nextIGDayUnixtime f b t dst)"
  by (simp add: getNextIGDayTime_def from_time_t_def Let_def split: option.splits)

text \<open>
  C2 does not hold of the code, and the code is at fault. The day changes of the in-game
  calendar are the instants \<open>illarionBirthTime + k * realSecondsInIllarionDay\<close>; the
  function subtracts \<^verbatim>\<open>illarionBirthTime\<close> (line 621), rounds up to the next multiple of
  \<^verbatim>\<open>realSecondsInIllarionDay\<close> (lines 622 and 623) and hands that distance since the birth
  time to \<^verbatim>\<open>from_time_t\<close> as if it were a Unix time: the birth time is never added back.
  With time factor 3, birth time 100 and no daylight saving time, at Unix time 30000 the
  function computes 57600, and the anchor fires 27600 seconds later, where the next day
  change, the value of the claim, is 57700. With the birth time 950742000, at Unix time
  1793361600 the function computes 842630400, an instant thirty years in the past, where
  the next day change is 1793372400, and the anchor lies 950731200 seconds before the
  steady clock's reading.
\<close>

theorem getNextIGDayTime_drops_birth_time:
  "nextIGDayUnixtime 3 100 30000 0 = Some 57600
   \<and> ((30000 - 100) div realSecondsInIllarionDay 3 + 1) * realSecondsInIllarionDay 3 + 100
       = 57700
   \<and> getNextIGDayTime 3 100 30000 0 0 (30000 * 1000000000) = Some (27600 * 1000000000)
   \<and> nextIGDayUnixtime 3 950742000 1793361600 0 = Some 842630400
   \<and> ((1793361600 - 950742000) div realSecondsInIllarionDay 3 + 1)
         * realSecondsInIllarionDay 3 + 950742000
       = 1793372400
   \<and> getNextIGDayTime 3 950742000 1793361600 0 0 (1793361600 * 1000000000)
       = Some (- 950731200 * 1000000000)"
  by (simp add: getNextIGDayTime_def from_time_t_def nextIGDayUnixtime_def
      realSecondsInIllarionDay_def secondsInHour_def Let_def
      signed_divide_int_def signed_modulo_int_def)

text \<open>
  The in-game day anchor scenario of the specification: time factor 3, birth time 0, Unix
  time 30000, no daylight saving time. With the birth time 0 the value is the day change:
  the boundary is 57600 and the first fire is 27600 seconds after the steady clock's
  reading.
\<close>

lemma in_game_day_anchor_scenario:
  "realSecondsInIllarionDay 3 = 28800
   \<and> nextIGDayUnixtime 3 0 30000 0 = Some 57600
   \<and> getNextIGDayTime 3 0 30000 0 0 (30000 * 1000000000) = Some (27600 * 1000000000)"
  by (simp add: getNextIGDayTime_def from_time_t_def nextIGDayUnixtime_def
      realSecondsInIllarionDay_def secondsInHour_def Let_def
      signed_divide_int_def signed_modulo_int_def)

subsection \<open>Player commands\<close>

lemma matchName_longer:
  "list_all (\<lambda>c. c \<noteq> CHR '' '') n \<Longrightarrow> n \<noteq> [] \<Longrightarrow> matchRest a \<Longrightarrow>
   matchName (length n + j) (n @ CHR '' '' # a) = Some (n, a)"
proof (induction j)
  case 0
  then obtain k where k: "length n = Suc k" by (cases n) auto
  with 0 show ?case by (simp add: Let_def)
next
  case (Suc j)
  have "\<not> list_all (\<lambda>c. c \<noteq> CHR '' '') (take (Suc (length n + j)) (n @ CHR '' '' # a))"
    by (simp add: list_all_iff)
  with Suc show ?case by (simp add: Let_def)
qed

lemma regex_match_command:
  assumes "n \<noteq> []" "list_all (\<lambda>c. c \<noteq> CHR '' '') n" "matchRest a"
  shows "regex_match (CHR ''!'' # n @ CHR '' '' # a) = Some (n, a)"
proof -
  have "length (n @ CHR '' '' # a) = length n + Suc (length a)" by simp
  then show ?thesis
    using matchName_longer [OF assms(2) assms(1) assms(3), of "Suc (length a)"]
    by (simp add: regex_match_def)
qed

lemma matchName_skip_space:
  "\<not> list_all (\<lambda>c. c \<noteq> CHR '' '') (take (Suc k) s) \<Longrightarrow> matchName (Suc k) s = matchName k s"
  by (simp add: Let_def)

lemma matchName_past_space:
  assumes "length n < k" "k \<le> length (n @ CHR '' '' # a)"
  shows "matchName k (n @ CHR '' '' # a) = matchName (length n) (n @ CHR '' '' # a)"
  using assms
proof (induction k)
  case 0
  then show ?case by simp
next
  case (Suc k)
  from Suc.prems obtain j where j: "Suc k = length n + Suc j"
    by (metis less_imp_Suc_add add_Suc_right)
  have "take (length n + Suc j) (n @ CHR '' '' # a) = n @ CHR '' '' # take j a"
    by simp
  then have "\<not> list_all (\<lambda>c. c \<noteq> CHR '' '') (take (Suc k) (n @ CHR '' '' # a))"
    by (simp add: j list_all_iff)
  then have "matchName (Suc k) (n @ CHR '' '' # a) = matchName k (n @ CHR '' '' # a)"
    by (rule matchName_skip_space)
  then show ?case using Suc by (cases "length n = k") simp_all
qed

lemma matchName_no_rest:
  assumes "\<not> matchRest a" "list_all (\<lambda>c. c \<noteq> CHR '' '') n" "k \<le> length n"
  shows "matchName k (n @ CHR '' '' # a) = None"
  using assms(3)
proof (induction k)
  case 0
  then show ?case by simp
next
  case (Suc k)
  have r: "drop (Suc k) (n @ CHR '' '' # a) = drop (Suc k) n @ CHR '' '' # a"
    using Suc.prems by simp
  have nr: "\<not> matchRest (drop (Suc k) n @ CHR '' '' # a)"
    using assms(1) by (simp add: matchRest_def)
  have nt: "\<not> matchRest (tl (drop (Suc k) n @ CHR '' '' # a))"
    using assms(1) by (cases "drop (Suc k) n") (simp_all add: matchRest_def)
  from Suc show ?case by (simp add: Let_def r nr nt)
qed

text \<open>
  The backtracking search finds what the greedy reading of the pattern gives: the name is
  the longest run of characters other than the space after the \<open>!\<close>, one space after
  it is dropped, and the rest is the argument, which must hold no line terminator.
\<close>

lemma regex_match_greedy:
  "regex_match (CHR ''!'' # s) =
     (let name = takeWhile (\<lambda>c. c \<noteq> CHR '' '') s; r = dropWhile (\<lambda>c. c \<noteq> CHR '' '') s in
      if name = [] then None
      else if r = [] then Some (name, [])
      else if matchRest (tl r) then Some (name, tl r) else None)"
proof -
  define n where "n = takeWhile (\<lambda>c. c \<noteq> CHR '' '') s"
  define r where "r = dropWhile (\<lambda>c. c \<noteq> CHR '' '') s"
  have s: "s = n @ r" by (simp add: n_def r_def)
  have nn: "list_all (\<lambda>c. c \<noteq> CHR '' '') n"
    unfolding n_def list_all_iff by (auto dest: set_takeWhileD)
  show ?thesis
  proof (cases r)
    case Nil
    then have sn: "s = n" using s by simp
    show ?thesis
    proof (cases n)
      case Nil
      with sn show ?thesis by (simp add: regex_match_def)
    next
      case (Cons c cs)
      then have "matchName (length s) s = Some (n, [])"
        using sn nn by (simp add: Let_def matchRest_def)
      then show ?thesis
        using Cons \<open>r = []\<close> by (simp add: regex_match_def n_def [symmetric] r_def [symmetric] Let_def)
    qed
  next
    case (Cons c a)
    have "c = CHR '' ''"
      using Cons hd_dropWhile [of "\<lambda>c. c \<noteq> CHR '' ''" s] by (simp add: r_def)
    with Cons s have sa: "s = n @ CHR '' '' # a" by simp
    have red: "matchName (length s) s = matchName (length n) s"
      using matchName_past_space [of n "length s" a] sa by simp
    show ?thesis
    proof (cases n)
      case Nil
      then show ?thesis
        using red Cons by (simp add: regex_match_def n_def [symmetric] r_def [symmetric] Let_def)
    next
      case (Cons d ds)
      then obtain k where k: "length n = Suc k" by simp
      show ?thesis
      proof (cases "matchRest a")
        case True
        then have "matchName (length n) s = Some (n, a)"
          using nn sa k by (simp add: Let_def)
        then show ?thesis
          using red Cons \<open>r = c # a\<close> True
          by (simp add: regex_match_def n_def [symmetric] r_def [symmetric] Let_def)
      next
        case False
        then have "matchName (length n) s = None"
          using matchName_no_rest [of a n "length n"] nn sa by simp
        then show ?thesis
          using red Cons \<open>r = c # a\<close> False
          by (simp add: regex_match_def n_def [symmetric] r_def [symmetric] Let_def)
      qed
    qed
  qed
qed

text \<open>
  C8, as the specification states it, fails. The handler name \<open>say\<close> is in the command
  map and the argument, \<open>x\<close>, a line feed, \<open>y\<close>, has no leading space, but \<^verbatim>\<open>.\<close> does not
  match the line feed, the input does not match the pattern, no handler runs and the
  result is false. The name \<open>a b\<close> is in the command map too, but the name extracted from
  \<open>!a b x\<close> is \<open>a\<close>, which is not.
\<close>

theorem executeUserCommand_line_feed_counterexample:
  "example_commands ''say'' = Some example_handler
   \<and> executeUserCommand [] () (CHR ''!'' # ''say'' @ CHR '' '' # [CHR ''x'', CHR 0x0A, CHR ''y''])
        example_commands = (False, [])
   \<and> example_commands ''a b'' = Some example_handler
   \<and> executeUserCommand [] () (CHR ''!'' # ''a b'' @ CHR '' '' # ''x'') example_commands
        = (False, [])"
  by (simp add: executeUserCommand_def regex_match_def Let_def matchRest_def
      isLineTerminator_def example_commands_def)

text \<open>
  C8 (amended). For every handler name \<open>n\<close> in the command map that is not empty and
  holds no space, and every argument \<open>a\<close> that holds no line feed and no carriage return,
  executeUserCommand on \<open>!\<close>, \<open>n\<close>, a space and \<open>a\<close> runs that handler with the argument
  \<open>a\<close> and returns true. For every input that does not match the pattern or whose extracted
  name is not in the map, no handler runs and executeUserCommand returns false.
\<close>

theorem executeUserCommand_dispatch:
  "(n \<noteq> [] \<and> list_all (\<lambda>c. c \<noteq> CHR '' '') n \<and> list_all (\<lambda>c. \<not> isLineTerminator c) a
      \<and> commands n = Some handler \<longrightarrow>
      executeUserCommand this user (CHR ''!'' # n @ CHR '' '' # a) commands
        = (True, handler this user a))
   \<and> ((\<forall>m1 m2. regex_match input = Some (m1, m2) \<longrightarrow> commands m1 = None) \<longrightarrow>
      executeUserCommand this user input commands = (False, this))"
proof (intro conjI impI)
  assume h: "n \<noteq> [] \<and> list_all (\<lambda>c. c \<noteq> CHR '' '') n \<and> list_all (\<lambda>c. \<not> isLineTerminator c) a
      \<and> commands n = Some handler"
  then have "regex_match (CHR ''!'' # n @ CHR '' '' # a) = Some (n, a)"
    by (simp add: regex_match_command matchRest_def)
  with h show "executeUserCommand this user (CHR ''!'' # n @ CHR '' '' # a) commands
        = (True, handler this user a)"
    by (simp add: executeUserCommand_def)
next
  assume "\<forall>m1 m2. regex_match input = Some (m1, m2) \<longrightarrow> commands m1 = None"
  then show "executeUserCommand this user input commands = (False, this)"
    by (auto simp: executeUserCommand_def split: option.splits)
qed

text \<open>
  The command \<open>!say hello world\<close> runs the handler of \<open>say\<close> with \<open>hello world\<close>; the
  command \<open>!nothing here\<close> names no handler.
\<close>

theorem executeUserCommand_dispatch_witness:
  "executeUserCommand [] () ''!say hello world'' example_commands = (True, [''hello world''])
   \<and> regex_match ''!nothing here'' = Some (''nothing'', ''here'')
   \<and> example_commands ''nothing'' = None
   \<and> executeUserCommand [] () ''!nothing here'' example_commands = (False, [])"
  using executeUserCommand_dispatch [of "''say''" "''hello world''" example_commands
      example_handler "[]" "()" "''!nothing here''"]
  by (simp add: isLineTerminator_def example_commands_def example_handler_def regex_match_def
      Let_def matchRest_def)

subsection \<open>initRespawns\<close>

lemma loadRows_None:
  "fst (loadRows load rows spawns) = None
     \<longleftrightarrow> (\<forall>row \<in> set rows. \<exists>s. loadSpawnPoint load row = Inr s)"
  by (induction rows arbitrary: spawns) (auto split: sum.splits)

lemmas initRespawns_eval =
  initRespawns_def Let_def example_row_def loadSpawnPoint_def andThen_def as_uint32_def
  as_int16_def as_int_def as_uint16_def as_bool_def as_integer_def empty_world_def

text \<open>
  C9, as stated, fails in one direction. The query executes without throwing and yields
  one row, but the column \<^verbatim>\<open>spp_x\<close> of the row is NULL, or holds 40000, which is no
  \<^verbatim>\<open>int16_t\<close>: the conversion throws inside the \<^verbatim>\<open>try\<close> block, the handler catches
  it and initRespawns returns false.
\<close>

theorem initRespawns_conversion_counterexample:
  "[example_row None] \<noteq> []
   \<and> \<not> fst (initRespawns (\<lambda>m. m) (Inr [example_row None]) (\<lambda>i s. Inr s) empty_world)
   \<and> \<not> fst (initRespawns (\<lambda>m. m) (Inr [example_row (Some 40000)]) (\<lambda>i s. Inr s) empty_world)"
  by (simp add: initRespawns_eval)

text \<open>
  C9 (amended). initRespawns returns true if and only if the spawnpoint query executes
  without throwing, yields at least one row, and every row is converted and loaded
  without an exception. In particular a successful query that returns zero rows makes
  initRespawns return false, as a thrown database exception does.
\<close>

theorem initRespawns_result:
  "fst (initRespawns remove execute load w) \<longleftrightarrow>
     (\<exists>rows. execute = Inr rows \<and> rows \<noteq> []
        \<and> (\<forall>row \<in> set rows. \<exists>s. loadSpawnPoint load row = Inr s))"
proof (cases execute)
  case (Inl e)
  then show ?thesis by (simp add: initRespawns_def Let_def)
next
  case (Inr rows)
  show ?thesis
  proof (cases "rows = []")
    case True
    with Inr show ?thesis by (simp add: initRespawns_def Let_def)
  next
    case False
    obtain r spawns where ld: "loadRows load rows [] = (r, spawns)"
      by (cases "loadRows load rows []")
    then have "r = None \<longleftrightarrow> (\<forall>row \<in> set rows. \<exists>s. loadSpawnPoint load row = Inr s)"
      using loadRows_None [of load rows "[]"] by simp
    with Inr False ld show ?thesis
      by (cases r) (simp_all add: initRespawns_def Let_def)
  qed
qed

text \<open>
  One good row gives true and the spawn point in \<^verbatim>\<open>SpawnList\<close>; no row gives false; a
  query that throws gives false.
\<close>

theorem initRespawns_result_witness:
  "fst (initRespawns (\<lambda>m. m) (Inr [example_row (Some 100)]) (\<lambda>i s. Inr s) empty_world)
   \<and> SpawnList (snd (initRespawns (\<lambda>m. m) (Inr [example_row (Some 100)]) (\<lambda>i s. Inr s)
        empty_world)) = [example_spawn]
   \<and> \<not> fst (initRespawns (\<lambda>m. m) (Inr []) (\<lambda>i s. Inr s) empty_world)
   \<and> \<not> fst (initRespawns (\<lambda>m. m) (Inl QueryFailed) (\<lambda>i s. Inr s) empty_world)"
proof -
  have "\<forall>row \<in> set [example_row (Some 100)]. \<exists>s. loadSpawnPoint (\<lambda>i s. Inr s) row = Inr s"
    by (simp add: initRespawns_eval)
  then have "fst (initRespawns (\<lambda>m. m) (Inr [example_row (Some 100)]) (\<lambda>i s. Inr s) empty_world)"
    using initRespawns_result [of "\<lambda>m. m" "Inr [example_row (Some 100)]" "\<lambda>i s. Inr s" empty_world]
    by blast
  moreover have "\<not> fst (initRespawns (\<lambda>m. m) (Inr []) (\<lambda>i s. Inr s) empty_world)"
    using initRespawns_result [of "\<lambda>m. m" "Inr []" "\<lambda>i s. Inr s" empty_world] by simp
  moreover have "\<not> fst (initRespawns (\<lambda>m. m) (Inl QueryFailed) (\<lambda>i s. Inr s) empty_world)"
    using initRespawns_result [of "\<lambda>m. m" "Inl QueryFailed" "\<lambda>i s. Inr s" empty_world] by simp
  moreover have "SpawnList (snd (initRespawns (\<lambda>m. m) (Inr [example_row (Some 100)])
      (\<lambda>i s. Inr s) empty_world)) = [example_spawn]"
    by (simp add: initRespawns_eval example_spawn_def example_position_def)
  ultimately show ?thesis by simp
qed

subsection \<open>getTargetsInRange\<close>

lemma truncate_fields:
  "alive (Character.truncate c) = alive c"
  "pos (Character.truncate c) = pos c"
  "char_id (Character.truncate c) = char_id c"
  by (simp_all add: Character.truncate_def)

lemma getTargetsInRange_eq:
  "getTargetsInRange env w p r =
     map Character.truncate
       (filter (\<lambda>c. alive c \<and> inRange env p \<lparr>radius = r, zRadius = 0\<rparr> (pos c)) (Players w))
     @ map Character.truncate
       (filter (\<lambda>m. alive m \<and> inRange env p \<lparr>radius = r, zRadius = 0\<rparr> (pos m) \<and> pos m \<noteq> p)
          (Monsters w))"
proof -
  have a: "(\<lambda>c::Player. inRange env p \<lparr>radius = r, zRadius = 0\<rparr> (pos c) \<and> alive c)
         = (\<lambda>c. alive c \<and> inRange env p \<lparr>radius = r, zRadius = 0\<rparr> (pos c))"
    by auto
  have b: "(\<lambda>m::Monster. inRange env p \<lparr>radius = r, zRadius = 0\<rparr> (pos m) \<and> alive m \<and> p \<noteq> pos m)
         = (\<lambda>m. alive m \<and> inRange env p \<lparr>radius = r, zRadius = 0\<rparr> (pos m) \<and> pos m \<noteq> p)"
    by auto
  show ?thesis
    by (simp add: getTargetsInRange_def findAllAliveCharactersInRangeOf_def Let_def a b)
qed

lemmas targets_eval =
  getTargetsInRange_def findAllAliveCharactersInRangeOf_def Let_def inRange_def
  example_env_def targets_world_def empty_world_def example_player_def example_monster_def
  example_position_def Character.truncate_def

text \<open>
  C7. For every position \<open>p\<close> and radius \<open>r\<close>, getTargetsInRange returns exactly the live
  players within range \<open>r\<close> of \<open>p\<close>, followed by the live monsters within range \<open>r\<close> of
  \<open>p\<close> whose position is not \<open>p\<close>; no dead character is returned. The range of the query
  has the radius \<open>r\<close> and the vertical radius 0.
\<close>

theorem getTargetsInRange_alive_union:
  "getTargetsInRange env w p r =
     map Character.truncate
       (filter (\<lambda>c. alive c \<and> inRange env p \<lparr>radius = r, zRadius = 0\<rparr> (pos c)) (Players w))
     @ map Character.truncate
       (filter (\<lambda>m. alive m \<and> inRange env p \<lparr>radius = r, zRadius = 0\<rparr> (pos m) \<and> pos m \<noteq> p)
          (Monsters w))
   \<and> set (map char_id (getTargetsInRange env w p r)) =
       {char_id c |c. c \<in> set (Players w) \<and> alive c
                      \<and> inRange env p \<lparr>radius = r, zRadius = 0\<rparr> (pos c)}
       \<union> {char_id m |m. m \<in> set (Monsters w) \<and> alive m
                      \<and> inRange env p \<lparr>radius = r, zRadius = 0\<rparr> (pos m) \<and> pos m \<noteq> p}
   \<and> list_all alive (getTargetsInRange env w p r)"
proof (intro conjI)
  show "getTargetsInRange env w p r =
     map Character.truncate
       (filter (\<lambda>c. alive c \<and> inRange env p \<lparr>radius = r, zRadius = 0\<rparr> (pos c)) (Players w))
     @ map Character.truncate
       (filter (\<lambda>m. alive m \<and> inRange env p \<lparr>radius = r, zRadius = 0\<rparr> (pos m) \<and> pos m \<noteq> p)
          (Monsters w))"
    by (rule getTargetsInRange_eq)
  show "set (map char_id (getTargetsInRange env w p r)) =
       {char_id c |c. c \<in> set (Players w) \<and> alive c
                      \<and> inRange env p \<lparr>radius = r, zRadius = 0\<rparr> (pos c)}
       \<union> {char_id m |m. m \<in> set (Monsters w) \<and> alive m
                      \<and> inRange env p \<lparr>radius = r, zRadius = 0\<rparr> (pos m) \<and> pos m \<noteq> p}"
    by (auto simp: getTargetsInRange_eq truncate_fields image_iff)
  show "list_all alive (getTargetsInRange env w p r)"
    by (auto simp: getTargetsInRange_eq list_all_iff truncate_fields)
qed

text \<open>
  In the example world the search with radius 2 around \<open>(100, 100, 0)\<close> returns the live
  player 1 and the monster 11: not the dead player 2, not the monster 10 on the position
  itself, and with the vertical test of the example surroundings not the monster 12 one
  level above.
\<close>

lemma getTargetsInRange_example:
  "map char_id (getTargetsInRange example_env targets_world (example_position 100 100 0) 2) = [1, 11]"
  by (simp add: targets_eval)

subsection \<open>The three passes\<close>

lemma isPlayerNearby_Monsters [simp]:
  "isPlayerNearby env (w\<lparr>Monsters := X\<rparr>) c = isPlayerNearby env w c"
  by (simp add: isPlayerNearby_def getPlayersInRangeOf_def)

lemma isPlayerNearby_credit [simp]:
  "isPlayerNearby env w (checkEffects c) = isPlayerNearby env w c"
  "isPlayerNearby env w (increaseActionPoints env a c) = isPlayerNearby env w c"
  "isPlayerNearby env w (increaseFightPoints env a c) = isPlayerNearby env w c"
  by (simp_all add: isPlayerNearby_def checkEffects_def increaseActionPoints_def
      increaseFightPoints_def)

lemma isPlayerNearby_loop_world [simp]:
  "isPlayerNearby env (throttle w) c = isPlayerNearby env w c"
  "isPlayerNearby env (spawnCheck env w) c = isPlayerNearby env w c"
  by (simp_all add: isPlayerNearby_def getPlayersInRangeOf_def throttle_def spawnCheck_def)

lemma credit_fields [simp]:
  "onRoute (checkEffects c) = onRoute c"
  "onRoute (increaseActionPoints env a c) = onRoute c"
  "onRoute (increaseFightPoints env a c) = onRoute c"
  "alive (checkEffects c) = alive c"
  "alive (increaseActionPoints env a c) = alive c"
  "alive (increaseFightPoints env a c) = alive c"
  by (simp_all add: checkEffects_def increaseActionPoints_def increaseFightPoints_def)

lemma credit_monster:
  "checkEffects (increaseFightPoints env a (increaseActionPoints env a m)) =
     m\<lparr>actionPoints := min (MAX_AP env) (actionPoints m + a),
       fightPoints := min (MAX_FP env) (fightPoints m + a),
       effects := Suc (effects m)\<rparr>"
  by (simp add: checkEffects_def increaseFightPoints_def increaseActionPoints_def)

lemma checkMonster_skip:
  "alive m \<Longrightarrow> \<not> isPlayerNearby env w m \<Longrightarrow> \<not> onRoute m \<Longrightarrow>
   checkMonster env w seen todo m =
     (checkEffects (increaseFightPoints env (ap w) (increaseActionPoints env (ap w) m)), [], False)"
  by (simp add: checkMonster_def Let_def)

lemma checkMonster_dead:
  "snd (snd (checkMonster env w seen todo m)) = (\<not> alive m)"
  "\<not> alive m \<Longrightarrow> fst (checkMonster env w seen todo m) = m"
  by (simp_all add: checkMonster_def Let_def split: prod.splits)

lemma checkMonster_alive_cases:
  "alive m \<Longrightarrow>
   fst (checkMonster env w seen todo m)
     = checkEffects (increaseFightPoints env (ap w) (increaseActionPoints env (ap w) m))
   \<or> fst (checkMonster env w seen todo m)
     = fst (notOnRoute env w seen todo
         (checkEffects (increaseFightPoints env (ap w) (increaseActionPoints env (ap w) m))))
   \<or> fst (checkMonster env w seen todo m)
     = fst (onRouteTravel env w seen todo
         (checkEffects (increaseFightPoints env (ap w) (increaseActionPoints env (ap w) m))))"
  by (simp add: checkMonster_def Let_def split: prod.splits)

lemma checkOneNPC_skip:
  "alive n \<Longrightarrow> \<not> isPlayerNearby env w n \<Longrightarrow> \<not> onRoute n \<Longrightarrow>
   checkOneNPC env w n = (checkEffects (increaseActionPoints env (ap w) n), [])"
  by (simp add: checkOneNPC_def Let_def)

text \<open>
  The loop over the monsters: the population after the loop holds, at the place of every
  monster, the result of the loop's body for it, run while the population holds the
  results for the monsters before it and the monsters after it as they were; the dead
  monsters are queued unchanged.
\<close>

lemma forEachMonster_loop:
  "forEachMonster env w seen todo = (ms, dead, evs) \<Longrightarrow>
     length ms = length seen + length todo
     \<and> take (length seen) ms = seen
     \<and> dead = filter (\<lambda>m. \<not> alive m) todo
     \<and> (\<forall>i < length todo. ms ! (length seen + i)
            = fst (checkMonster env w (take (length seen + i) ms) (drop (Suc i) todo) (todo ! i)))"
proof (induction todo arbitrary: seen ms dead evs)
  case Nil
  then show ?case by simp
next
  case (Cons m todo)
  obtain m1 e1 d1 where c: "checkMonster env w seen todo m = (m1, e1, d1)"
    by (cases "checkMonster env w seen todo m") auto
  obtain ms2 dd2 e2 where r: "forEachMonster env w (seen @ [m1]) todo = (ms2, dd2, e2)"
    by (cases "forEachMonster env w (seen @ [m1]) todo") auto
  from Cons.prems c r have eq: "ms = ms2" and dd: "dead = (if d1 then [m1] else []) @ dd2"
    by simp_all
  from checkMonster_dead(1) [of env w seen todo m] c
  have d1: "d1 = (\<not> alive m)"
    by simp
  from checkMonster_dead(2) [of m env w seen todo] c
  have m1: "\<not> alive m \<Longrightarrow> m1 = m"
    by simp
  from Cons.IH [OF r] have len: "length ms2 = length seen + 1 + length todo"
    and tk: "take (length seen + 1) ms2 = seen @ [m1]"
    and dd2: "dd2 = filter (\<lambda>m. \<not> alive m) todo"
    and rest: "\<And>i. i < length todo \<Longrightarrow> ms2 ! (length seen + 1 + i)
            = fst (checkMonster env w (take (length seen + 1 + i) ms2) (drop (Suc i) todo)
                (todo ! i))"
    by simp_all
  have tk0: "take (length seen) ms2 = seen"
  proof -
    have "take (length seen) (take (length seen + 1) ms2) = take (length seen) (seen @ [m1])"
      by (simp only: tk)
    then show ?thesis by simp
  qed
  have at: "ms2 ! length seen = m1"
  proof -
    have "(take (length seen + 1) ms2) ! length seen = (seen @ [m1]) ! length seen"
      by (simp only: tk)
    then show ?thesis by simp
  qed
  show ?case
  proof (intro conjI allI impI)
    show "length ms = length seen + length (m # todo)" using eq len by simp
    show "take (length seen) ms = seen" using eq tk0 by simp
    show "dead = filter (\<lambda>m. \<not> alive m) (m # todo)" using dd dd2 d1 m1 by simp
  next
    fix i assume i: "i < length (m # todo)"
    show "ms ! (length seen + i)
            = fst (checkMonster env w (take (length seen + i) ms) (drop (Suc i) (m # todo))
                ((m # todo) ! i))"
    proof (cases i)
      case 0
      with eq at c tk0 show ?thesis by simp
    next
      case (Suc k)
      with i have "k < length todo" by simp
      from rest [OF this] Suc eq show ?thesis by simp
    qed
  qed
qed

lemma forEachMonster_nth:
  assumes "i < length ms"
  shows "fst (forEachMonster env w [] ms) ! i
     = fst (checkMonster env w (take i (fst (forEachMonster env w [] ms))) (drop (Suc i) ms)
         (ms ! i))"
proof -
  obtain r dd e where f: "forEachMonster env w [] ms = (r, dd, e)"
    by (cases "forEachMonster env w [] ms") auto
  from forEachMonster_loop [OF f] assms
  have "r ! i = fst (checkMonster env w (take i r) (drop (Suc i) ms) (ms ! i))"
    by simp
  then show ?thesis by (simp add: f)
qed

lemma forEachMonster_dead:
  "fst (snd (forEachMonster env w [] ms)) = filter (\<lambda>m. \<not> alive m) ms"
proof -
  obtain r dd e where f: "forEachMonster env w [] ms = (r, dd, e)"
    by (cases "forEachMonster env w [] ms") auto
  from forEachMonster_loop [OF f] show ?thesis by (simp add: f)
qed

lemma forEachMonster_length:
  "length (fst (forEachMonster env w [] ms)) = length ms"
proof -
  obtain r dd e where f: "forEachMonster env w [] ms = (r, dd, e)"
    by (cases "forEachMonster env w [] ms") auto
  from forEachMonster_loop [OF f] show ?thesis by (simp add: f)
qed

lemma forEachMonster_skip:
  assumes "i < length ms" "alive (ms ! i)" "\<not> isPlayerNearby env w (ms ! i)" "\<not> onRoute (ms ! i)"
  shows "fst (forEachMonster env w [] ms) ! i =
     checkEffects (increaseFightPoints env (ap w) (increaseActionPoints env (ap w) (ms ! i)))"
  using assms by (simp add: forEachMonster_nth checkMonster_skip)

lemma fold_killMonster_fields [simp]:
  "ap (fold (\<lambda>m. killMonster (char_id m)) ds w) = ap w"
  "usedAP (fold (\<lambda>m. killMonster (char_id m)) ds w) = usedAP w"
  "Npc (fold (\<lambda>m. killMonster (char_id m)) ds w) = Npc w"
  "Players (fold (\<lambda>m. killMonster (char_id m)) ds w) = Players w"
  "LostNpcs (fold (\<lambda>m. killMonster (char_id m)) ds w) = LostNpcs w"
  "newMonsters (fold (\<lambda>m. killMonster (char_id m)) ds w) = newMonsters w"
  by (induction ds arbitrary: w; simp add: killMonster_def)+

lemma fold_killMonster_Monsters:
  "Monsters (fold (\<lambda>m. killMonster (char_id m)) ds w)
     = filter (\<lambda>m. char_id m \<notin> set (map char_id ds)) (Monsters w)"
proof (induction ds arbitrary: w)
  case Nil
  then show ?case by simp
next
  case (Cons d ds)
  have "Monsters (fold (\<lambda>m. killMonster (char_id m)) (d # ds) w)
      = filter (\<lambda>m. char_id m \<notin> set (map char_id ds)) (Monsters (killMonster (char_id d) w))"
    by (simp add: Cons.IH)
  also have "\<dots> = filter (\<lambda>m. char_id m \<notin> set (map char_id ds))
      (filter (\<lambda>c. char_id c \<noteq> char_id d) (Monsters w))"
    by (simp add: killMonster_def erase_def)
  also have "\<dots> = filter (\<lambda>m. char_id m \<notin> set (map char_id (d # ds))) (Monsters w)"
    by (induction "Monsters w" arbitrary: w) auto
  finally show ?case .
qed

lemma fold_insertNewMonster_fields [simp]:
  "ap (fold (insertNewMonster env) ns w) = ap w"
  "usedAP (fold (insertNewMonster env) ns w) = usedAP w"
  "Npc (fold (insertNewMonster env) ns w) = Npc w"
  "Players (fold (insertNewMonster env) ns w) = Players w"
  "LostNpcs (fold (insertNewMonster env) ns w) = LostNpcs w"
  by (induction ns arbitrary: w; simp add: insertNewMonster_def)+

lemma fold_insertNewMonster_Monsters:
  "Monsters (fold (insertNewMonster env) ns w) = Monsters w @ ns"
  by (induction ns arbitrary: w; simp add: insertNewMonster_def)

lemma spawnCheck_fields [simp]:
  "ap (spawnCheck env w) = ap w"
  "usedAP (spawnCheck env w) = usedAP w"
  "Npc (spawnCheck env w) = Npc w"
  "Players (spawnCheck env w) = Players w"
  "LostNpcs (spawnCheck env w) = LostNpcs w"
  "Monsters (spawnCheck env w) = Monsters w"
  by (simp_all add: spawnCheck_def)

lemma throttle_fields [simp]:
  "ap (throttle w) = (if 1 < ap w then ap w - 1 else ap w)"
  "usedAP (throttle w) = usedAP w"
  "Npc (throttle w) = Npc w"
  "Players (throttle w) = Players w"
  "LostNpcs (throttle w) = LostNpcs w"
  "Monsters (throttle w) = Monsters w"
  "newMonsters (throttle w) = newMonsters w"
  by (simp_all add: throttle_def)

lemma checkMonsters_fields:
  "ap (checkMonsters env w) = (if 1 < ap w then ap w - 1 else ap w)"
  "usedAP (checkMonsters env w) = usedAP w"
  "Npc (checkMonsters env w) = Npc w"
  "Players (checkMonsters env w) = Players w"
  "LostNpcs (checkMonsters env w) = LostNpcs w"
  by (simp_all add: checkMonsters_def Let_def split: prod.splits)

text \<open>
  The population after the monster pass: the population after the loop, run in the world
  that the spawn check and the decrement of \<open>ap\<close> leave, without the monsters that have the
  id of a dead monster, followed by the monsters that the spawn check buffered.
\<close>

lemma checkMonsters_Monsters:
  "Monsters (checkMonsters env w) =
     filter (\<lambda>m. char_id m \<notin> set (map char_id (filter (\<lambda>d. \<not> alive d) (Monsters w))))
       (fst (forEachMonster env (throttle (spawnCheck env w)) [] (Monsters w)))
     @ newMonsters (spawnCheck env w)"
proof -
  obtain r dd e where
    f: "forEachMonster env (throttle (spawnCheck env w)) [] (Monsters w) = (r, dd, e)"
    by (cases "forEachMonster env (throttle (spawnCheck env w)) [] (Monsters w)") auto
  from forEachMonster_dead [of env "throttle (spawnCheck env w)" "Monsters w"] f
  have dd: "dd = filter (\<lambda>d. \<not> alive d) (Monsters w)"
    by simp
  show ?thesis
    by (simp add: checkMonsters_def Let_def f dd fold_insertNewMonster_Monsters
        fold_killMonster_Monsters)
qed

lemma checkPlayers_fields:
  "ap (checkPlayers env w) = ap w"
  "usedAP (checkPlayers env w) = usedAP w"
  "Npc (checkPlayers env w) = Npc w"
  "Monsters (checkPlayers env w) = Monsters w"
  "LostNpcs (checkPlayers env w) = LostNpcs w"
  by (simp_all add: checkPlayers_def split: prod.splits)

lemma checkNPC_fields:
  "ap (checkNPC env w) = ap w"
  "usedAP (checkNPC env w) = usedAP w"
  "Players (checkNPC env w) = Players w"
  "Monsters (checkNPC env w) = Monsters w"
  by (simp_all add: checkNPC_def deleteAllLostNPC_def Let_def)

lemma checkNPC_Npc:
  "Npc (checkNPC env w) =
     map (\<lambda>n. fst (checkOneNPC env (deleteAllLostNPC w) n))
       (filter (\<lambda>n. char_id n \<notin> set (LostNpcs w)) (Npc w))"
  by (simp add: checkNPC_def deleteAllLostNPC_def Let_def comp_def)

lemmas example_eval =
  example_env_def empty_world_def lonely_world_def example_monster_def example_npc_def
  example_position_def example_spawn_def example_player_def players_world_def

lemmas pass_eval =
  turntheworld_def checkPlayers_def checkMonsters_def checkNPC_def checkMonster_def
  checkOneNPC_def spawnCheck_def throttle_def deleteAllLostNPC_def isPlayerNearby_def
  getPlayersInRangeOf_def increaseActionPoints_def increaseFightPoints_def checkEffects_def
  static_cast_int_def signed_divide_int_def Let_def Character.truncate_def

subsection \<open>The tick driver\<close>

lemma passes_usedAP:
  "usedAP (checkNPC env (checkMonsters env (checkPlayers env w))) = usedAP w"
  by (simp add: checkNPC_fields checkMonsters_fields checkPlayers_fields)

lemma turntheworld_usedAP:
  assumes "0 < MIN_AP_UPDATE env" and "0 \<le> elapsed"
    and "- (2 ^ 31) \<le> elapsed div MIN_AP_UPDATE env - usedAP w"
    and "elapsed div MIN_AP_UPDATE env - usedAP w < 2 ^ 31"
  shows "usedAP (turntheworld env elapsed w) =
     (if 0 < elapsed div MIN_AP_UPDATE env - usedAP w then elapsed div MIN_AP_UPDATE env else usedAP w)"
proof -
  have cast: "static_cast_int (elapsed sdiv MIN_AP_UPDATE env - usedAP w)
      = elapsed div MIN_AP_UPDATE env - usedAP w"
    using assms by (simp add: sdiv_eq_div_nonneg static_cast_int_id)
  show ?thesis
    by (simp add: turntheworld_def Let_def cast passes_usedAP)
qed

text \<open>
  A sequence of calls at the elapsed times \<open>t # ts\<close>, which a steady clock gives in
  ascending order, from a world whose \<open>usedAP\<close> does not exceed the bound of the first
  call: after the last call \<open>usedAP\<close> is the bound of the last call.
\<close>

lemma turntheworld_calls:
  assumes m: "0 < MIN_AP_UPDATE env"
  shows "sorted (t # ts) \<Longrightarrow> \<forall>x \<in> set (t # ts). 0 \<le> x \<and> x div MIN_AP_UPDATE env < 2 ^ 31 \<Longrightarrow>
     0 \<le> usedAP w \<Longrightarrow> usedAP w \<le> t div MIN_AP_UPDATE env \<Longrightarrow>
     usedAP (foldl (\<lambda>w x. turntheworld env x w) w (t # ts)) = last (t # ts) div MIN_AP_UPDATE env"
proof (induction ts arbitrary: t w)
  case Nil
  then show ?case using m by (simp add: turntheworld_usedAP)
next
  case (Cons u ts)
  let ?w = "turntheworld env t w"
  from Cons.prems m have step: "usedAP ?w = t div MIN_AP_UPDATE env"
    by (simp add: turntheworld_usedAP)
  from Cons.prems have tu: "t \<le> u" by simp
  then have le: "t div MIN_AP_UPDATE env \<le> u div MIN_AP_UPDATE env"
    using m by (simp add: zdiv_mono1)
  from Cons.prems have "0 \<le> t" by simp
  then have nn: "0 \<le> t div MIN_AP_UPDATE env" using m by (simp add: pos_imp_zdiv_nonneg_iff)
  have "usedAP (foldl (\<lambda>w x. turntheworld env x w) ?w (u # ts)) = last (u # ts) div MIN_AP_UPDATE env"
  proof (rule Cons.IH)
    show "sorted (u # ts)" using Cons.prems(1) by simp
    show "\<forall>x \<in> set (u # ts). 0 \<le> x \<and> x div MIN_AP_UPDATE env < 2 ^ 31" using Cons.prems(2) by simp
    show "0 \<le> usedAP ?w" using step nn by simp
    show "usedAP ?w \<le> u div MIN_AP_UPDATE env" using step le by simp
  qed
  then show ?case by simp
qed

text \<open>
  C1. At every call, with \<open>elapsed\<close> the milliseconds since \<^verbatim>\<open>startTime\<close> (not
  negative on a steady clock), a positive \<^verbatim>\<open>MIN_AP_UPDATE\<close> and a difference
  \<open>a = floor(elapsed / MIN_AP_UPDATE) - usedAP\<close> that the type \<^verbatim>\<open>int\<close> holds, the driver
  sets the member \<open>ap\<close> to \<open>a\<close>. If \<open>a > 0\<close> it adds \<open>a\<close> to \<open>usedAP\<close> and runs the player
  pass, then the monster pass, then the NPC pass. If \<open>a \<le> 0\<close> it runs no pass and no
  member other than \<open>ap\<close>, which it has just set, changes. Hence \<open>usedAP\<close> never
  decreases, and if it did not exceed \<open>floor(elapsed / MIN_AP_UPDATE)\<close> before the call,
  as at the start and after every earlier call, it equals that bound after the call.
\<close>

theorem turntheworld_ledger:
  assumes "0 < MIN_AP_UPDATE env" and "0 \<le> elapsed"
    and "- (2 ^ 31) \<le> elapsed div MIN_AP_UPDATE env - usedAP w"
    and "elapsed div MIN_AP_UPDATE env - usedAP w < 2 ^ 31"
  shows "(0 < elapsed div MIN_AP_UPDATE env - usedAP w \<longrightarrow>
            turntheworld env elapsed w =
              checkNPC env (checkMonsters env (checkPlayers env
                (w\<lparr>ap := elapsed div MIN_AP_UPDATE env - usedAP w,
                   usedAP := usedAP w + (elapsed div MIN_AP_UPDATE env - usedAP w)\<rparr>))))
       \<and> (elapsed div MIN_AP_UPDATE env - usedAP w \<le> 0 \<longrightarrow>
            turntheworld env elapsed w = w\<lparr>ap := elapsed div MIN_AP_UPDATE env - usedAP w\<rparr>)
       \<and> usedAP w \<le> usedAP (turntheworld env elapsed w)
       \<and> (usedAP w \<le> elapsed div MIN_AP_UPDATE env \<longrightarrow>
            usedAP (turntheworld env elapsed w) = elapsed div MIN_AP_UPDATE env)"
proof -
  let ?a = "elapsed div MIN_AP_UPDATE env - usedAP w"
  have cast: "static_cast_int (elapsed sdiv MIN_AP_UPDATE env - usedAP w) = ?a"
    using assms by (simp add: sdiv_eq_div_nonneg static_cast_int_id)
  have pos: "0 < ?a \<Longrightarrow> turntheworld env elapsed w =
      checkNPC env (checkMonsters env (checkPlayers env (w\<lparr>ap := ?a, usedAP := usedAP w + ?a\<rparr>)))"
    by (simp add: turntheworld_def Let_def cast)
  have neg: "?a \<le> 0 \<Longrightarrow> turntheworld env elapsed w = w\<lparr>ap := ?a\<rparr>"
    by (simp add: turntheworld_def Let_def cast)
  have used: "usedAP (turntheworld env elapsed w) = (if 0 < ?a then usedAP w + ?a else usedAP w)"
  proof (cases "0 < ?a")
    case True
    then show ?thesis by (simp add: pos passes_usedAP)
  next
    case False
    then show ?thesis by (simp add: neg)
  qed
  show ?thesis
  proof (intro conjI impI)
    assume "0 < ?a"
    then show "turntheworld env elapsed w =
      checkNPC env (checkMonsters env (checkPlayers env (w\<lparr>ap := ?a, usedAP := usedAP w + ?a\<rparr>)))"
      by (rule pos)
  next
    assume "?a \<le> 0"
    then show "turntheworld env elapsed w = w\<lparr>ap := ?a\<rparr>" by (rule neg)
  next
    show "usedAP w \<le> usedAP (turntheworld env elapsed w)" by (simp add: used)
  next
    assume "usedAP w \<le> elapsed div MIN_AP_UPDATE env"
    then show "usedAP (turntheworld env elapsed w) = elapsed div MIN_AP_UPDATE env"
      by (simp add: used)
  qed
qed

text \<open>
  The specification's stall scenario: one action point per 100 milliseconds and calls at
  0, 80, 220 and 500 milliseconds. The first two calls compute no action point and leave
  the world as it is, the third computes 2, the fourth 3, and \<open>usedAP\<close> ends at 5.
\<close>

theorem turntheworld_ledger_witness:
  "0 < MIN_AP_UPDATE example_env
   \<and> turntheworld example_env 0 empty_world = empty_world
   \<and> turntheworld example_env 80 empty_world = empty_world
   \<and> 220 div MIN_AP_UPDATE example_env - usedAP empty_world = 2
   \<and> usedAP (turntheworld example_env 220 empty_world) = 2
   \<and> 500 div MIN_AP_UPDATE example_env - usedAP (turntheworld example_env 220 empty_world) = 3
   \<and> usedAP (turntheworld example_env 500 (turntheworld example_env 220 empty_world)) = 5"
proof -
  have m: "MIN_AP_UPDATE example_env = 100" by (simp add: example_env_def)
  have u: "usedAP empty_world = 0" "ap empty_world = 0" by (simp_all add: empty_world_def)
  have t0: "turntheworld example_env 0 empty_world = empty_world"
    using turntheworld_ledger [of example_env 0 empty_world] by (simp add: m u)
  have t80: "turntheworld example_env 80 empty_world = empty_world"
    using turntheworld_ledger [of example_env 80 empty_world] by (simp add: m u)
  have t220: "usedAP (turntheworld example_env 220 empty_world) = 2"
    using turntheworld_ledger [of example_env 220 empty_world] by (simp add: m u passes_usedAP)
  have t500: "usedAP (turntheworld example_env 500 (turntheworld example_env 220 empty_world)) = 5"
    using turntheworld_ledger [of example_env 500 "turntheworld example_env 220 empty_world"]
    by (simp add: m t220 passes_usedAP)
  from m u t0 t80 t220 t500 show ?thesis by simp
qed

subsection \<open>The save of a player pass\<close>

lemma savedPlayers_append: "savedPlayers (xs @ ys) = savedPlayers xs @ savedPlayers ys"
  by (induction xs rule: savedPlayers.induct) simp_all

lemma checkPlayer_saved:
  "checkPlayer env a True p = (p', s', l, evs) \<Longrightarrow>
     s' = True \<and> lastsavetime p' = lastsavetime p \<and> savedPlayers evs = []"
  by (auto simp: checkPlayer_def Let_def increaseActionPoints_def increaseFightPoints_def
      checkEffects_def split: if_splits)

lemma checkPlayer_due:
  "dueForSave env p \<Longrightarrow> checkPlayer env a False p = (p', s', l, evs) \<Longrightarrow>
     s' = True \<and> lastsavetime p' = time_now env \<and> savedPlayers evs = [char_id p]"
  by (auto simp: checkPlayer_def dueForSave_def Let_def increaseActionPoints_def
      increaseFightPoints_def checkEffects_def save_def split: if_splits)

lemma checkPlayer_not_due:
  "\<not> dueForSave env p \<Longrightarrow> checkPlayer env a False p = (p', s', l, evs) \<Longrightarrow>
     s' = False \<and> lastsavetime p' = lastsavetime p \<and> savedPlayers evs = []"
  by (auto simp: checkPlayer_def dueForSave_def Let_def increaseActionPoints_def
      increaseFightPoints_def checkEffects_def save_def split: if_splits)

lemma forEachPlayer_saved:
  "forEachPlayer env a True ps = (ps', lost, evs) \<Longrightarrow>
     savedPlayers evs = [] \<and> map lastsavetime ps' = map lastsavetime ps"
proof (induction ps arbitrary: ps' lost evs)
  case Nil
  then show ?case by simp
next
  case (Cons p ps)
  obtain p1 s1 l1 e1 where c: "checkPlayer env a True p = (p1, s1, l1, e1)"
    by (cases "checkPlayer env a True p") auto
  from checkPlayer_saved [OF c] have s1: "s1 = True" and ls: "lastsavetime p1 = lastsavetime p"
    and sv: "savedPlayers e1 = []" by simp_all
  obtain ps2 l2 e2 where r: "forEachPlayer env a True ps = (ps2, l2, e2)"
    by (cases "forEachPlayer env a True ps") auto
  from Cons.IH [OF r] have ih: "savedPlayers e2 = []" "map lastsavetime ps2 = map lastsavetime ps"
    by simp_all
  from Cons.prems c r s1 have "ps' = p1 # ps2" "evs = e1 @ e2" by simp_all
  with ls sv ih show ?case by (simp add: savedPlayers_append)
qed

lemma forEachPlayer_length:
  "forEachPlayer env a s ps = (ps', lost, evs) \<Longrightarrow> length ps' = length ps"
proof (induction ps arbitrary: s ps' lost evs)
  case Nil
  then show ?case by simp
next
  case (Cons p ps)
  then show ?case by (auto split: prod.splits)
qed

lemma forEachPlayer_first_due:
  "forEachPlayer env a False ps = (ps', lost, evs) \<Longrightarrow>
     savedPlayers evs = (case find (dueForSave env) ps of None \<Rightarrow> [] | Some p \<Rightarrow> [char_id p])
     \<and> (\<forall>i < length ps. lastsavetime (ps' ! i) =
           (if dueForSave env (ps ! i) \<and> (\<forall>j < i. \<not> dueForSave env (ps ! j))
            then time_now env else lastsavetime (ps ! i)))"
proof (induction ps arbitrary: ps' lost evs)
  case Nil
  then show ?case by simp
next
  case (Cons p ps)
  obtain p1 s1 l1 e1 where c: "checkPlayer env a False p = (p1, s1, l1, e1)"
    by (cases "checkPlayer env a False p") auto
  obtain ps2 l2 e2 where r: "forEachPlayer env a s1 ps = (ps2, l2, e2)"
    by (cases "forEachPlayer env a s1 ps") auto
  from Cons.prems c r have eq: "ps' = p1 # ps2" "evs = e1 @ e2" by simp_all
  show ?case
  proof (cases "dueForSave env p")
    case True
    from checkPlayer_due [OF True c] have s1: "s1 = True" and ls: "lastsavetime p1 = time_now env"
      and sv: "savedPlayers e1 = [char_id p]" by simp_all
    from r s1 have "forEachPlayer env a True ps = (ps2, l2, e2)" by simp
    from forEachPlayer_saved [OF this]
    have rest: "savedPlayers e2 = []" "map lastsavetime ps2 = map lastsavetime ps" by simp_all
    have len: "length ps2 = length ps" using rest(2) by (metis length_map)
    have nth: "\<And>i. i < length ps \<Longrightarrow> lastsavetime (ps2 ! i) = lastsavetime (ps ! i)"
      using rest(2) len by (metis nth_map)
    show ?thesis
    proof (intro conjI allI impI)
      show "savedPlayers evs = (case find (dueForSave env) (p # ps) of None \<Rightarrow> [] | Some p \<Rightarrow> [char_id p])"
        using True eq sv rest by (simp add: savedPlayers_append)
    next
      fix i assume i: "i < length (p # ps)"
      show "lastsavetime (ps' ! i) =
           (if dueForSave env ((p # ps) ! i) \<and> (\<forall>j < i. \<not> dueForSave env ((p # ps) ! j))
            then time_now env else lastsavetime ((p # ps) ! i))"
      proof (cases i)
        case 0
        with True eq ls show ?thesis by simp
      next
        case (Suc k)
        with i have k: "k < length ps" by simp
        have "\<not> (\<forall>j < i. \<not> dueForSave env ((p # ps) ! j))"
          using True Suc by auto
        then have "(if dueForSave env ((p # ps) ! i) \<and> (\<forall>j < i. \<not> dueForSave env ((p # ps) ! j))
            then time_now env else lastsavetime ((p # ps) ! i)) = lastsavetime ((p # ps) ! i)"
          by (simp only: simp_thms if_False)
        with Suc eq nth [OF k] show ?thesis by simp
      qed
    qed
  next
    case False
    from checkPlayer_not_due [OF False c] have s1: "s1 = False" and ls: "lastsavetime p1 = lastsavetime p"
      and sv: "savedPlayers e1 = []" by simp_all
    from r s1 have r': "forEachPlayer env a False ps = (ps2, l2, e2)" by simp
    from Cons.IH [OF r']
    have ih1: "savedPlayers e2 = (case find (dueForSave env) ps of None \<Rightarrow> [] | Some p \<Rightarrow> [char_id p])"
      and ih2: "\<And>i. i < length ps \<Longrightarrow> lastsavetime (ps2 ! i) =
           (if dueForSave env (ps ! i) \<and> (\<forall>j < i. \<not> dueForSave env (ps ! j))
            then time_now env else lastsavetime (ps ! i))"
      by simp_all
    show ?thesis
    proof (intro conjI allI impI)
      show "savedPlayers evs = (case find (dueForSave env) (p # ps) of None \<Rightarrow> [] | Some p \<Rightarrow> [char_id p])"
        using False eq sv ih1 by (simp add: savedPlayers_append)
    next
      fix i assume i: "i < length (p # ps)"
      show "lastsavetime (ps' ! i) =
           (if dueForSave env ((p # ps) ! i) \<and> (\<forall>j < i. \<not> dueForSave env ((p # ps) ! j))
            then time_now env else lastsavetime ((p # ps) ! i))"
      proof (cases i)
        case 0
        with False eq ls show ?thesis by simp
      next
        case (Suc k)
        with i have k: "k < length ps" by simp
        have "(\<forall>j < i. \<not> dueForSave env ((p # ps) ! j)) \<longleftrightarrow> (\<forall>j < k. \<not> dueForSave env (ps ! j))"
        proof
          assume a: "\<forall>j < i. \<not> dueForSave env ((p # ps) ! j)"
          show "\<forall>j < k. \<not> dueForSave env (ps ! j)"
          proof (intro allI impI)
            fix j assume "j < k"
            then have "Suc j < i" using Suc by simp
            with a have "\<not> dueForSave env ((p # ps) ! Suc j)" by blast
            then show "\<not> dueForSave env (ps ! j)" by simp
          qed
        next
          assume a: "\<forall>j < k. \<not> dueForSave env (ps ! j)"
          show "\<forall>j < i. \<not> dueForSave env ((p # ps) ! j)"
          proof (intro allI impI)
            fix j assume "j < i"
            then show "\<not> dueForSave env ((p # ps) ! j)"
              using a False Suc by (cases j) auto
          qed
        qed
        with Suc eq ih2 [OF k] show ?thesis by auto
      qed
    qed
  qed
qed

lemma forEachPlayer_all_online:
  "forEachPlayer env a s ps = (ps', lost, evs) \<Longrightarrow> list_all online ps \<Longrightarrow> lost = []"
proof (induction ps arbitrary: s ps' lost evs)
  case Nil
  then show ?case by simp
next
  case (Cons p ps)
  obtain p1 s1 l1 e1 where c: "checkPlayer env a s p = (p1, s1, l1, e1)"
    by (cases "checkPlayer env a s p") auto
  obtain ps2 l2 e2 where r: "forEachPlayer env a s1 ps = (ps2, l2, e2)"
    by (cases "forEachPlayer env a s1 ps") auto
  from Cons.prems(2) c have "\<not> l1"
    by (auto simp: checkPlayer_def Let_def split: if_splits)
  moreover from Cons.IH [OF r] Cons.prems(2) have "l2 = []" by simp
  ultimately show ?case using Cons.prems(1) c r by simp
qed

text \<open>
  C5. In every player pass \<^verbatim>\<open>player.save()\<close> is called at most once: it is called on
  the first player in iteration order that is online, within the keepalive window and
  has \<open>now - lastSaveTime \<ge> PLAYER_SAVE_INTERVAL\<close>, and on no player if there is none.
  After the loop that player has the new \<^verbatim>\<open>lastSaveTime\<close> and every other player,
  also one that is due, has its old one. If every player is online the population after
  the pass is the population after the loop.
\<close>

theorem checkPlayers_one_save:
  "savedPlayers (trace (checkPlayers env w)) =
     savedPlayers (trace w)
       @ (case find (dueForSave env) (Players w) of None \<Rightarrow> [] | Some p \<Rightarrow> [char_id p])
   \<and> length (savedPlayers (trace (checkPlayers env w))) \<le> length (savedPlayers (trace w)) + 1
   \<and> length (fst (forEachPlayer env (ap w) False (Players w))) = length (Players w)
   \<and> (\<forall>i < length (Players w).
        lastsavetime (fst (forEachPlayer env (ap w) False (Players w)) ! i) =
          (if dueForSave env (Players w ! i) \<and> (\<forall>j < i. \<not> dueForSave env (Players w ! j))
           then time_now env else lastsavetime (Players w ! i)))
   \<and> (list_all online (Players w) \<longrightarrow>
        Players (checkPlayers env w) = fst (forEachPlayer env (ap w) False (Players w)))"
proof -
  obtain ps lost evs where f: "forEachPlayer env (ap w) False (Players w) = (ps, lost, evs)"
    by (cases "forEachPlayer env (ap w) False (Players w)") auto
  note fd = forEachPlayer_first_due [OF f]
  have tr: "trace (checkPlayers env w)
      = trace w @ evs @ (if lost \<noteq> [] then [UpdatePlayerList] else [])"
    by (simp add: checkPlayers_def f)
  have saves: "savedPlayers (trace (checkPlayers env w)) =
     savedPlayers (trace w)
       @ (case find (dueForSave env) (Players w) of None \<Rightarrow> [] | Some p \<Rightarrow> [char_id p])"
    using fd by (simp add: tr savedPlayers_append)
  have "length (case find (dueForSave env) (Players w) of None \<Rightarrow> [] | Some p \<Rightarrow> [char_id p]) \<le> 1"
    by (simp split: option.splits)
  then have count: "length (savedPlayers (trace (checkPlayers env w)))
      \<le> length (savedPlayers (trace w)) + 1"
    by (simp add: saves)
  have online: "list_all online (Players w) \<Longrightarrow> Players (checkPlayers env w) = ps"
    using forEachPlayer_all_online [OF f] by (simp add: checkPlayers_def f)
  from saves count forEachPlayer_length [OF f] fd online show ?thesis
    by (simp add: f)
qed

text \<open>
  The specification's staggered saves scenario: of three players that are all due, a pass
  saves the first and the other two retain their old \<^verbatim>\<open>lastSaveTime\<close>; the second
  pass saves the second and the third pass the third.
\<close>

theorem checkPlayers_one_save_witness:
  "list_all (dueForSave example_env) (Players players_world)
   \<and> savedPlayers (trace (checkPlayers example_env players_world)) = [1]
   \<and> map lastsavetime (Players (checkPlayers example_env players_world)) = [10000, 0, 0]
   \<and> savedPlayers (trace (checkPlayers example_env
        (checkPlayers example_env (checkPlayers example_env players_world)))) = [1, 2, 3]
   \<and> map lastsavetime (Players (checkPlayers example_env
        (checkPlayers example_env (checkPlayers example_env players_world))))
       = [10000, 10000, 10000]"
proof -
  have due: "list_all (dueForSave example_env) (Players players_world)"
    by (simp add: dueForSave_def example_eval)
  have "find (dueForSave example_env) (Players players_world)
      = Some (example_player 1 (example_position 10 10 0) True 0)"
    by (simp add: dueForSave_def example_eval)
  with checkPlayers_one_save [of example_env players_world]
  have one: "savedPlayers (trace (checkPlayers example_env players_world)) = [1]"
    by (simp add: example_eval)
  have rest: "map lastsavetime (Players (checkPlayers example_env players_world)) = [10000, 0, 0]
   \<and> savedPlayers (trace (checkPlayers example_env
        (checkPlayers example_env (checkPlayers example_env players_world)))) = [1, 2, 3]
   \<and> map lastsavetime (Players (checkPlayers example_env
        (checkPlayers example_env (checkPlayers example_env players_world))))
       = [10000, 10000, 10000]"
    by (simp add: checkPlayers_def checkPlayer_def erase_def save_def increaseActionPoints_def
        increaseFightPoints_def checkEffects_def Let_def example_eval)
  from due one rest show ?thesis by simp
qed

subsection \<open>The early out of the monster pass and of the NPC pass\<close>

text \<open>
  C4, as stated, fails: both passes credit before they test for the early out. In a world
  without players a live monster and a live NPC, neither on a route, have empty
  reservoirs and no effect tick; after one tick of one action point the monster has one
  action point, one fight point and one effect tick, the NPC one action point and one
  effect tick.
\<close>

theorem early_out_unchanged_counterexample:
  "map alive (Monsters lonely_world) = [True] \<and> map onRoute (Monsters lonely_world) = [False]
   \<and> map (isPlayerNearby example_env lonely_world) (Monsters lonely_world) = [False]
   \<and> map alive (Npc lonely_world) = [True] \<and> map onRoute (Npc lonely_world) = [False]
   \<and> map (isPlayerNearby example_env lonely_world) (Npc lonely_world) = [False]
   \<and> map (\<lambda>m. (actionPoints m, fightPoints m, effects m)) (Monsters lonely_world) = [(0, 0, 0)]
   \<and> map (\<lambda>m. (actionPoints m, fightPoints m, effects m))
        (Monsters (turntheworld example_env 100 lonely_world)) = [(1, 1, 1)]
   \<and> map (\<lambda>n. (actionPoints n, effects n)) (Npc lonely_world) = [(0, 0)]
   \<and> map (\<lambda>n. (actionPoints n, effects n))
        (Npc (turntheworld example_env 100 lonely_world)) = [(1, 1)]"
  by (simp add: pass_eval example_eval erase_def insertNewMonster_def killMonster_def)

text \<open>
  C4 (amended). For every live monster and every live NPC such that no player is within
  \<^verbatim>\<open>MAX_ACT_RANGE\<close> of it and it is not on a route, the pass first credits it and then
  skips it. The monster pass, entered with \<open>ap\<close>, credits with the value it has
  decremented, \<open>ap - 1\<close> when \<open>ap > 1\<close> and \<open>ap\<close> otherwise: the monster's action points
  and fight points are raised by that value up to their caps and its effects are ticked
  once; the body of the loop makes no call for it and does not queue it as dead, the
  credited monster is its entry in the population after the loop, and it is in the
  population after the pass unless a dead monster has its id. The population after the
  pass is the one after the loop, without the monsters with the id of a dead monster and
  with the spawned monsters appended. The NPC pass credits with the \<open>ap\<close> it is entered
  with: the NPC's action points are raised by it up to the cap and its effects are ticked
  once, no call is made for it, and the credited NPC is its entry in the population after
  the pass.
\<close>

theorem early_out_after_credit:
  "(\<forall>i < length (Monsters w).
      alive (Monsters w ! i) \<and> \<not> isPlayerNearby env w (Monsters w ! i)
        \<and> \<not> onRoute (Monsters w ! i) \<longrightarrow>
      checkMonster env (throttle (spawnCheck env w)) seen todo (Monsters w ! i) =
        ((Monsters w ! i)
           \<lparr>actionPoints := min (MAX_AP env)
              (actionPoints (Monsters w ! i) + (if 1 < ap w then ap w - 1 else ap w)),
            fightPoints := min (MAX_FP env)
              (fightPoints (Monsters w ! i) + (if 1 < ap w then ap w - 1 else ap w)),
            effects := Suc (effects (Monsters w ! i))\<rparr>, [], False)
      \<and> fst (forEachMonster env (throttle (spawnCheck env w)) [] (Monsters w)) ! i =
          (Monsters w ! i)
            \<lparr>actionPoints := min (MAX_AP env)
               (actionPoints (Monsters w ! i) + (if 1 < ap w then ap w - 1 else ap w)),
             fightPoints := min (MAX_FP env)
               (fightPoints (Monsters w ! i) + (if 1 < ap w then ap w - 1 else ap w)),
             effects := Suc (effects (Monsters w ! i))\<rparr>
      \<and> (char_id (Monsters w ! i)
            \<notin> set (map char_id (filter (\<lambda>d. \<not> alive d) (Monsters w))) \<longrightarrow>
          (Monsters w ! i)
            \<lparr>actionPoints := min (MAX_AP env)
               (actionPoints (Monsters w ! i) + (if 1 < ap w then ap w - 1 else ap w)),
             fightPoints := min (MAX_FP env)
               (fightPoints (Monsters w ! i) + (if 1 < ap w then ap w - 1 else ap w)),
             effects := Suc (effects (Monsters w ! i))\<rparr>
          \<in> set (Monsters (checkMonsters env w))))
   \<and> Monsters (checkMonsters env w) =
        filter (\<lambda>m. char_id m \<notin> set (map char_id (filter (\<lambda>d. \<not> alive d) (Monsters w))))
          (fst (forEachMonster env (throttle (spawnCheck env w)) [] (Monsters w)))
        @ newMonsters (spawnCheck env w)
   \<and> (alive n \<and> \<not> isPlayerNearby env w n \<and> \<not> onRoute n \<longrightarrow>
        checkOneNPC env w n =
          (n\<lparr>actionPoints := min (MAX_AP env) (actionPoints n + ap w),
             effects := Suc (effects n)\<rparr>, []))
   \<and> Npc (checkNPC env w) =
        map (\<lambda>n. if alive n \<and> \<not> isPlayerNearby env w n \<and> \<not> onRoute n
                 then n\<lparr>actionPoints := min (MAX_AP env) (actionPoints n + ap w),
                        effects := Suc (effects n)\<rparr>
                 else fst (checkOneNPC env (deleteAllLostNPC w) n))
          (filter (\<lambda>n. char_id n \<notin> set (LostNpcs w)) (Npc w))"
proof (intro conjI allI impI)
  fix i
  assume i: "i < length (Monsters w)"
    and h: "alive (Monsters w ! i) \<and> \<not> isPlayerNearby env w (Monsters w ! i)
        \<and> \<not> onRoute (Monsters w ! i)"
  define c where "c = (Monsters w ! i)
           \<lparr>actionPoints := min (MAX_AP env)
              (actionPoints (Monsters w ! i) + (if 1 < ap w then ap w - 1 else ap w)),
            fightPoints := min (MAX_FP env)
              (fightPoints (Monsters w ! i) + (if 1 < ap w then ap w - 1 else ap w)),
            effects := Suc (effects (Monsters w ! i))\<rparr>"
  have cr: "checkEffects
        (increaseFightPoints env (ap (throttle (spawnCheck env w)))
          (increaseActionPoints env (ap (throttle (spawnCheck env w))) (Monsters w ! i))) = c"
    by (simp only: credit_monster c_def throttle_fields spawnCheck_fields)
  from h have nb: "\<not> isPlayerNearby env (throttle (spawnCheck env w)) (Monsters w ! i)"
    by simp
  from h have al: "alive (Monsters w ! i)" and nr: "\<not> onRoute (Monsters w ! i)"
    by simp_all
  from checkMonster_skip [OF al nb nr]
  show "checkMonster env (throttle (spawnCheck env w)) seen todo (Monsters w ! i) =
        (c, [], False)"
    by (simp only: cr)
  from forEachMonster_skip [OF i al nb nr]
  show at: "fst (forEachMonster env (throttle (spawnCheck env w)) [] (Monsters w)) ! i = c"
    by (simp only: cr)
  assume live: "char_id (Monsters w ! i)
            \<notin> set (map char_id (filter (\<lambda>d. \<not> alive d) (Monsters w)))"
  have "char_id c = char_id (Monsters w ! i)"
    by (simp add: c_def)
  with live have "char_id c \<notin> set (map char_id (filter (\<lambda>d. \<not> alive d) (Monsters w)))"
    by simp
  moreover from i at
  have "c \<in> set (fst (forEachMonster env (throttle (spawnCheck env w)) [] (Monsters w)))"
    by (metis forEachMonster_length nth_mem)
  ultimately show "c \<in> set (Monsters (checkMonsters env w))"
    by (simp add: checkMonsters_Monsters)
next
  show "Monsters (checkMonsters env w) =
        filter (\<lambda>m. char_id m \<notin> set (map char_id (filter (\<lambda>d. \<not> alive d) (Monsters w))))
          (fst (forEachMonster env (throttle (spawnCheck env w)) [] (Monsters w)))
        @ newMonsters (spawnCheck env w)"
    by (rule checkMonsters_Monsters)
next
  assume "alive n \<and> \<not> isPlayerNearby env w n \<and> \<not> onRoute n"
  then show "checkOneNPC env w n =
          (n\<lparr>actionPoints := min (MAX_AP env) (actionPoints n + ap w),
             effects := Suc (effects n)\<rparr>, [])"
    by (simp add: checkOneNPC_skip)
      (simp add: checkEffects_def increaseActionPoints_def)
next
  have "\<And>n. alive n \<and> \<not> isPlayerNearby env w n \<and> \<not> onRoute n \<Longrightarrow>
      fst (checkOneNPC env (deleteAllLostNPC w) n) =
        n\<lparr>actionPoints := min (MAX_AP env) (actionPoints n + ap w), effects := Suc (effects n)\<rparr>"
  proof -
    fix n :: NPC
    assume h: "alive n \<and> \<not> isPlayerNearby env w n \<and> \<not> onRoute n"
    have "isPlayerNearby env (deleteAllLostNPC w) n = isPlayerNearby env w n"
      by (simp add: isPlayerNearby_def getPlayersInRangeOf_def deleteAllLostNPC_def)
    with h have "checkOneNPC env (deleteAllLostNPC w) n =
        (checkEffects (increaseActionPoints env (ap (deleteAllLostNPC w)) n), [])"
      by (simp add: checkOneNPC_skip)
    then show "fst (checkOneNPC env (deleteAllLostNPC w) n) =
        n\<lparr>actionPoints := min (MAX_AP env) (actionPoints n + ap w), effects := Suc (effects n)\<rparr>"
      by (simp add: checkEffects_def increaseActionPoints_def deleteAllLostNPC_def)
  qed
  then show "Npc (checkNPC env w) =
        map (\<lambda>n. if alive n \<and> \<not> isPlayerNearby env w n \<and> \<not> onRoute n
                 then n\<lparr>actionPoints := min (MAX_AP env) (actionPoints n + ap w),
                        effects := Suc (effects n)\<rparr>
                 else fst (checkOneNPC env (deleteAllLostNPC w) n))
          (filter (\<lambda>n. char_id n \<notin> set (LostNpcs w)) (Npc w))"
    by (simp add: checkNPC_Npc)
qed

text \<open>
  The monster and the NPC of the world without players. The monster pass is entered with
  three action points and credits the monster with two; no call is made for it, it is not
  queued as dead, and it is the population after the pass. The NPC pass, entered with
  three action points, credits the NPC with three.
\<close>

theorem early_out_after_credit_witness:
  "0 < length (Monsters (lonely_world\<lparr>ap := 3\<rparr>))
   \<and> alive (Monsters (lonely_world\<lparr>ap := 3\<rparr>) ! 0)
   \<and> \<not> isPlayerNearby example_env (lonely_world\<lparr>ap := 3\<rparr>) (Monsters (lonely_world\<lparr>ap := 3\<rparr>) ! 0)
   \<and> \<not> onRoute (Monsters (lonely_world\<lparr>ap := 3\<rparr>) ! 0)
   \<and> checkMonster example_env (throttle (spawnCheck example_env (lonely_world\<lparr>ap := 3\<rparr>))) [] []
       (example_monster 10 (example_position 50 50 0) True)
     = ((example_monster 10 (example_position 50 50 0) True)
          \<lparr>actionPoints := 2, fightPoints := 2, effects := 1\<rparr>, [], False)
   \<and> Monsters (checkMonsters example_env (lonely_world\<lparr>ap := 3\<rparr>))
     = [(example_monster 10 (example_position 50 50 0) True)
          \<lparr>actionPoints := 2, fightPoints := 2, effects := 1\<rparr>]
   \<and> checkOneNPC example_env (lonely_world\<lparr>ap := 3\<rparr>) (example_npc 20 (example_position 60 60 0))
     = ((example_npc 20 (example_position 60 60 0))\<lparr>actionPoints := 3, effects := 1\<rparr>, [])
   \<and> Npc (checkNPC example_env (lonely_world\<lparr>ap := 3\<rparr>))
     = [(example_npc 20 (example_position 60 60 0))\<lparr>actionPoints := 3, effects := 1\<rparr>]"
proof -
  note t = early_out_after_credit [of "lonely_world\<lparr>ap := 3\<rparr>" example_env "[]" "[]"
      "example_npc 20 (example_position 60 60 0)"]
  have h: "0 < length (Monsters (lonely_world\<lparr>ap := 3\<rparr>))
      \<and> alive (Monsters (lonely_world\<lparr>ap := 3\<rparr>) ! 0)
      \<and> \<not> isPlayerNearby example_env (lonely_world\<lparr>ap := 3\<rparr>) (Monsters (lonely_world\<lparr>ap := 3\<rparr>) ! 0)
      \<and> \<not> onRoute (Monsters (lonely_world\<lparr>ap := 3\<rparr>) ! 0)"
    by (simp add: isPlayerNearby_def getPlayersInRangeOf_def example_eval)
  have m: "Monsters lonely_world ! 0 = example_monster 10 (example_position 50 50 0) True"
    by (simp add: lonely_world_def empty_world_def)
  from t h have "checkMonster example_env (throttle (spawnCheck example_env (lonely_world\<lparr>ap := 3\<rparr>)))
       [] [] (Monsters (lonely_world\<lparr>ap := 3\<rparr>) ! 0)
     = ((Monsters (lonely_world\<lparr>ap := 3\<rparr>) ! 0)
           \<lparr>actionPoints := min (MAX_AP example_env)
              (actionPoints (Monsters (lonely_world\<lparr>ap := 3\<rparr>) ! 0)
                + (if 1 < ap (lonely_world\<lparr>ap := 3\<rparr>) then ap (lonely_world\<lparr>ap := 3\<rparr>) - 1
                   else ap (lonely_world\<lparr>ap := 3\<rparr>))),
            fightPoints := min (MAX_FP example_env)
              (fightPoints (Monsters (lonely_world\<lparr>ap := 3\<rparr>) ! 0)
                + (if 1 < ap (lonely_world\<lparr>ap := 3\<rparr>) then ap (lonely_world\<lparr>ap := 3\<rparr>) - 1
                   else ap (lonely_world\<lparr>ap := 3\<rparr>))),
            effects := Suc (effects (Monsters (lonely_world\<lparr>ap := 3\<rparr>) ! 0))\<rparr>, [], False)"
    by blast
  then have c: "checkMonster example_env (throttle (spawnCheck example_env (lonely_world\<lparr>ap := 3\<rparr>)))
       [] [] (example_monster 10 (example_position 50 50 0) True)
     = ((example_monster 10 (example_position 50 50 0) True)
          \<lparr>actionPoints := 2, fightPoints := 2, effects := 1\<rparr>, [], False)"
    by (simp add: m example_env_def example_monster_def)
  have rest: "Monsters (checkMonsters example_env (lonely_world\<lparr>ap := 3\<rparr>))
     = [(example_monster 10 (example_position 50 50 0) True)
          \<lparr>actionPoints := 2, fightPoints := 2, effects := 1\<rparr>]
   \<and> checkOneNPC example_env (lonely_world\<lparr>ap := 3\<rparr>) (example_npc 20 (example_position 60 60 0))
     = ((example_npc 20 (example_position 60 60 0))\<lparr>actionPoints := 3, effects := 1\<rparr>, [])
   \<and> Npc (checkNPC example_env (lonely_world\<lparr>ap := 3\<rparr>))
     = [(example_npc 20 (example_position 60 60 0))\<lparr>actionPoints := 3, effects := 1\<rparr>]"
    by (simp add: pass_eval example_eval erase_def insertNewMonster_def killMonster_def)
  from h c rest show ?thesis by simp
qed

subsection \<open>The throttling of the monster pass\<close>

lemma checkOneNPC_alive_cases:
  "alive n \<Longrightarrow>
   fst (checkOneNPC env w n) = checkEffects (increaseActionPoints env (ap w) n)
   \<or> fst (checkOneNPC env w n)
        = snd (npcMakeMove env (checkEffects (increaseActionPoints env (ap w) n)))
   \<or> fst (checkOneNPC env w n)
        = (snd (npcMakeMove env (checkEffects (increaseActionPoints env (ap w) n))))
            \<lparr>onRoute := False\<rparr>"
  by (cases "npcMakeMove env (checkEffects (increaseActionPoints env (ap w) n))")
    (auto simp: checkOneNPC_def Let_def split: bool.splits)

text \<open>
  C3, as stated, fails in its last part: \<open>ap\<close> is a member of the world, the monster pass
  decrements the member, and the NPC pass that follows reads the same member. In a tick
  that computes three action points the NPC of the example world is credited with two.
\<close>

theorem npc_pass_undecremented_counterexample:
  "static_cast_int (300 sdiv MIN_AP_UPDATE example_env - usedAP lonely_world) = 3
   \<and> map actionPoints (Npc lonely_world) = [0]
   \<and> map actionPoints (Npc (turntheworld example_env 300 lonely_world)) = [2]
   \<and> map (\<lambda>n. actionPoints (increaseActionPoints example_env 3 n)) (Npc lonely_world) = [3]"
  by (simp add: pass_eval example_eval erase_def insertNewMonster_def killMonster_def)

text \<open>
  C3 (amended). After the spawn check, which leaves \<open>ap\<close> and the monsters as they are, the
  monster pass decrements the member \<open>ap\<close> by 1 when \<open>ap > 1\<close>. The loop over the monsters
  runs in the world with the decremented value: the population after the pass is the one
  after that loop, without the monsters with the id of a dead monster and with the spawned
  monsters appended; the entry of every monster after the loop is the result of the loop's
  body in that world; and the body first credits a live monster with the \<open>ap\<close> of its
  world, ticks its effects, and does everything else with the credited monster. The
  decremented value is the value of \<open>ap\<close> when the monster pass returns, and the NPC pass
  that follows in the same tick credits the NPCs with the decremented value too: every
  live NPC that is not purged is credited with it and its effects are ticked, before
  anything else is done with it.
\<close>

theorem monster_pass_decrement_is_shared:
  "ap (throttle (spawnCheck env w)) = (if 1 < ap w then ap w - 1 else ap w)
   \<and> Monsters (throttle (spawnCheck env w)) = Monsters w
   \<and> Monsters (checkMonsters env w) =
        filter (\<lambda>m. char_id m \<notin> set (map char_id (filter (\<lambda>d. \<not> alive d) (Monsters w))))
          (fst (forEachMonster env (throttle (spawnCheck env w)) [] (Monsters w)))
        @ newMonsters (spawnCheck env w)
   \<and> (\<forall>i < length (Monsters w).
         fst (forEachMonster env (throttle (spawnCheck env w)) [] (Monsters w)) ! i
           = fst (checkMonster env (throttle (spawnCheck env w))
               (take i (fst (forEachMonster env (throttle (spawnCheck env w)) [] (Monsters w))))
               (drop (Suc i) (Monsters w)) (Monsters w ! i)))
   \<and> (alive m \<longrightarrow>
        fst (checkMonster env W seen todo m)
          = checkEffects (increaseFightPoints env (ap W) (increaseActionPoints env (ap W) m))
        \<or> fst (checkMonster env W seen todo m)
          = fst (notOnRoute env W seen todo
              (checkEffects (increaseFightPoints env (ap W) (increaseActionPoints env (ap W) m))))
        \<or> fst (checkMonster env W seen todo m)
          = fst (onRouteTravel env W seen todo
              (checkEffects (increaseFightPoints env (ap W) (increaseActionPoints env (ap W) m)))))
   \<and> ap (checkMonsters env w) = (if 1 < ap w then ap w - 1 else ap w)
   \<and> Npc (checkNPC env (checkMonsters env w)) =
        map (\<lambda>n. fst (checkOneNPC env (deleteAllLostNPC (checkMonsters env w)) n))
          (filter (\<lambda>n. char_id n \<notin> set (LostNpcs w)) (Npc w))
   \<and> ap (deleteAllLostNPC (checkMonsters env w)) = (if 1 < ap w then ap w - 1 else ap w)
   \<and> (alive n \<longrightarrow>
        fst (checkOneNPC env W n) = checkEffects (increaseActionPoints env (ap W) n)
        \<or> fst (checkOneNPC env W n)
             = snd (npcMakeMove env (checkEffects (increaseActionPoints env (ap W) n)))
        \<or> fst (checkOneNPC env W n)
             = (snd (npcMakeMove env (checkEffects (increaseActionPoints env (ap W) n))))
                 \<lparr>onRoute := False\<rparr>)"
proof (intro conjI allI impI)
  show "ap (throttle (spawnCheck env w)) = (if 1 < ap w then ap w - 1 else ap w)"
    by simp
next
  show "Monsters (throttle (spawnCheck env w)) = Monsters w"
    by simp
next
  show "Monsters (checkMonsters env w) =
        filter (\<lambda>m. char_id m \<notin> set (map char_id (filter (\<lambda>d. \<not> alive d) (Monsters w))))
          (fst (forEachMonster env (throttle (spawnCheck env w)) [] (Monsters w)))
        @ newMonsters (spawnCheck env w)"
    by (rule checkMonsters_Monsters)
next
  fix i assume i: "i < length (Monsters w)"
  show "fst (forEachMonster env (throttle (spawnCheck env w)) [] (Monsters w)) ! i
           = fst (checkMonster env (throttle (spawnCheck env w))
               (take i (fst (forEachMonster env (throttle (spawnCheck env w)) [] (Monsters w))))
               (drop (Suc i) (Monsters w)) (Monsters w ! i))"
    by (rule forEachMonster_nth [OF i])
next
  assume "alive m"
  then show "fst (checkMonster env W seen todo m)
          = checkEffects (increaseFightPoints env (ap W) (increaseActionPoints env (ap W) m))
        \<or> fst (checkMonster env W seen todo m)
          = fst (notOnRoute env W seen todo
              (checkEffects (increaseFightPoints env (ap W) (increaseActionPoints env (ap W) m))))
        \<or> fst (checkMonster env W seen todo m)
          = fst (onRouteTravel env W seen todo
              (checkEffects (increaseFightPoints env (ap W) (increaseActionPoints env (ap W) m))))"
    by (rule checkMonster_alive_cases)
next
  show "ap (checkMonsters env w) = (if 1 < ap w then ap w - 1 else ap w)"
    by (rule checkMonsters_fields)
next
  show "Npc (checkNPC env (checkMonsters env w)) =
        map (\<lambda>n. fst (checkOneNPC env (deleteAllLostNPC (checkMonsters env w)) n))
          (filter (\<lambda>n. char_id n \<notin> set (LostNpcs w)) (Npc w))"
    by (simp add: checkNPC_Npc checkMonsters_fields)
next
  show "ap (deleteAllLostNPC (checkMonsters env w)) = (if 1 < ap w then ap w - 1 else ap w)"
    by (simp add: deleteAllLostNPC_def checkMonsters_fields)
next
  assume "alive n"
  then show "fst (checkOneNPC env W n) = checkEffects (increaseActionPoints env (ap W) n)
        \<or> fst (checkOneNPC env W n)
             = snd (npcMakeMove env (checkEffects (increaseActionPoints env (ap W) n)))
        \<or> fst (checkOneNPC env W n)
             = (snd (npcMakeMove env (checkEffects (increaseActionPoints env (ap W) n))))
                 \<lparr>onRoute := False\<rparr>"
    by (rule checkOneNPC_alive_cases)
qed

text \<open>
  A monster pass and an NPC pass entered with three action points: the monster pass leaves
  two in \<open>ap\<close>, and the monster and the NPC of the example world are credited with two, as
  the populations after the passes show.
\<close>

theorem monster_pass_decrement_is_shared_witness:
  "0 < length (Monsters (lonely_world\<lparr>ap := 3\<rparr>))
   \<and> alive (example_monster 10 (example_position 50 50 0) True)
   \<and> alive (example_npc 20 (example_position 60 60 0))
   \<and> ap (throttle (spawnCheck example_env (lonely_world\<lparr>ap := 3\<rparr>))) = 2
   \<and> ap (checkMonsters example_env (lonely_world\<lparr>ap := 3\<rparr>)) = 2
   \<and> Monsters (checkMonsters example_env (lonely_world\<lparr>ap := 3\<rparr>))
       = [(example_monster 10 (example_position 50 50 0) True)
            \<lparr>actionPoints := 2, fightPoints := 2, effects := 1\<rparr>]
   \<and> Npc (checkNPC example_env (checkMonsters example_env (lonely_world\<lparr>ap := 3\<rparr>)))
       = [(example_npc 20 (example_position 60 60 0))\<lparr>actionPoints := 2, effects := 1\<rparr>]"
proof -
  note t = monster_pass_decrement_is_shared [of example_env "lonely_world\<lparr>ap := 3\<rparr>"
      "example_monster 10 (example_position 50 50 0) True"
      "throttle (spawnCheck example_env (lonely_world\<lparr>ap := 3\<rparr>))" "[]" "[]"
      "example_npc 20 (example_position 60 60 0)"]
  from t have a: "ap (throttle (spawnCheck example_env (lonely_world\<lparr>ap := 3\<rparr>))) = 2
      \<and> ap (checkMonsters example_env (lonely_world\<lparr>ap := 3\<rparr>)) = 2"
    by simp
  have rest: "Monsters (checkMonsters example_env (lonely_world\<lparr>ap := 3\<rparr>))
       = [(example_monster 10 (example_position 50 50 0) True)
            \<lparr>actionPoints := 2, fightPoints := 2, effects := 1\<rparr>]
   \<and> Npc (checkNPC example_env (checkMonsters example_env (lonely_world\<lparr>ap := 3\<rparr>)))
       = [(example_npc 20 (example_position 60 60 0))\<lparr>actionPoints := 2, effects := 1\<rparr>]"
    by (simp add: pass_eval example_eval erase_def insertNewMonster_def killMonster_def)
  have more: "0 < length (Monsters (lonely_world\<lparr>ap := 3\<rparr>))
      \<and> alive (example_monster 10 (example_position 50 50 0) True)
      \<and> alive (example_npc 20 (example_position 60 60 0))"
    by (simp add: example_eval)
  from a rest more show ?thesis by simp
qed

subsection \<open>The random step\<close>

lemma to_Coordinate_id:
  "- 32768 \<le> v \<Longrightarrow> v \<le> 32767 \<Longrightarrow> to_Coordinate v = v"
  by (simp add: to_Coordinate_def)

lemma to_Coordinate_abs:
  assumes "\<bar>v\<bar> \<le> 32768"
  shows "\<bar>to_Coordinate v\<bar> = \<bar>v\<bar>"
proof (cases "v = 32768")
  case True
  then show ?thesis by (simp add: to_Coordinate_def)
next
  case False
  with assms have "- 32768 \<le> v" and "v \<le> 32767"
    by (auto simp: abs_if split: if_splits)
  then show ?thesis by (simp add: to_Coordinate_id)
qed

lemma mirrorEastWest_move:
  "pos_x (move_position p (mirrorEastWest d)) = 2 * pos_x p - pos_x (move_position p d)"
  "pos_y (move_position p (mirrorEastWest d)) = pos_y (move_position p d)"
  "pos_z (move_position p (mirrorEastWest d)) = pos_z (move_position p d)"
  by (cases d; simp)+

lemma mirrorNorthSouth_move:
  "pos_x (move_position p (mirrorNorthSouth d)) = pos_x (move_position p d)"
  "pos_y (move_position p (mirrorNorthSouth d)) = 2 * pos_y p - pos_y (move_position p d)"
  "pos_z (move_position p (mirrorNorthSouth d)) = pos_z (move_position p d)"
  by (cases d; simp)+

text \<open>The reflection laws of the specification: each mirror is an involution, and they commute.\<close>

lemma mirror_laws:
  "mirrorEastWest (mirrorEastWest d) = d"
  "mirrorNorthSouth (mirrorNorthSouth d) = d"
  "mirrorEastWest (mirrorNorthSouth d) = mirrorNorthSouth (mirrorEastWest d)"
  by (cases d; simp)+

lemma move_position_step:
  "\<bar>pos_x (move_position p d) - pos_x p\<bar> \<le> 1"
  "\<bar>pos_y (move_position p d) - pos_y p\<bar> \<le> 1"
  by (cases d; simp)+

lemma mirrorAtSpawnBorder_position:
  "pos_x (move_position p (mirrorAtSpawnBorder (Some s) p d)) =
     (if \<bar>to_Coordinate (pos_x (spawn_pos s) - pos_x (move_position p d))\<bar> > spawn_range s
      then 2 * pos_x p - pos_x (move_position p d) else pos_x (move_position p d))"
  "pos_y (move_position p (mirrorAtSpawnBorder (Some s) p d)) =
     (if \<bar>to_Coordinate (pos_y (spawn_pos s) - pos_y (move_position p d))\<bar> > spawn_range s
      then 2 * pos_y p - pos_y (move_position p d) else pos_y (move_position p d))"
  "pos_z (move_position p (mirrorAtSpawnBorder (Some s) p d)) = pos_z (move_position p d)"
  by (simp_all add: mirrorAtSpawnBorder_def Let_def mirrorEastWest_move mirrorNorthSouth_move)

lemma reflect_bound:
  fixes c :: int
  assumes "0 \<le> r" "r \<le> 32766" "\<bar>x - sx\<bar> \<le> r + 1" "\<bar>c - x\<bar> \<le> 1"
  shows "\<bar>(if \<bar>to_Coordinate (sx - c)\<bar> > r then 2 * x - c else c) - sx\<bar> \<le> r + 1"
proof -
  from assms have "\<bar>sx - c\<bar> \<le> 32768"
    by (auto simp: abs_if split: if_splits)
  then have "\<bar>to_Coordinate (sx - c)\<bar> = \<bar>sx - c\<bar>"
    by (rule to_Coordinate_abs)
  with assms show ?thesis
    by (auto simp: abs_if split: if_splits)
qed

lemma randomStep_pos:
  "pos (randomStep env m) =
     move_position (pos m) (mirrorAtSpawnBorder (spawn m) (pos m) (randomDirection env m))"
  by (simp add: randomStep_def Let_def move_def increaseActionPoints_def)

lemma randomStep_bound:
  assumes "spawn m = Some s" "0 \<le> spawn_range s" "spawn_range s \<le> 32766"
    "\<bar>pos_x (pos m) - pos_x (spawn_pos s)\<bar> \<le> spawn_range s + 1"
    "\<bar>pos_y (pos m) - pos_y (spawn_pos s)\<bar> \<le> spawn_range s + 1"
  shows "\<bar>pos_x (pos (randomStep env m)) - pos_x (spawn_pos s)\<bar> \<le> spawn_range s + 1"
    "\<bar>pos_y (pos (randomStep env m)) - pos_y (spawn_pos s)\<bar> \<le> spawn_range s + 1"
  using assms
  by (simp_all add: randomStep_pos mirrorAtSpawnBorder_position reflect_bound
      move_position_step del: abs_le_iff)

text \<open>
  C6, as stated, fails in both parts. The bound does not hold for every monster with a
  spawn point: a monster stands ten fields east of a spawn point of range 5, where the
  pursuit of a target can have led it, and draws west. The candidate position is nine
  fields from the spawn point, which is out of range, so the direction is mirrored to
  east and the monster ends eleven fields from its spawn point. And the test is made on
  the difference of the coordinates as stored in a \<^verbatim>\<open>Coordinate\<close>: with a spawn point at
  \<open>x = -16384\<close> of range 32767, a monster at \<open>x = 16384\<close>, within \<open>range + 1\<close>, draws
  east; the candidate is 32769 fields from the spawn point, the difference -32769 is
  stored as 32767, which is not beyond the range, the direction is not mirrored and the
  monster ends 32769 fields from its spawn point.
\<close>

theorem random_step_bound_counterexample:
  "spawn (example_monster 1 (example_position 110 100 0) True) = Some example_spawn
   \<and> spawn_pos example_spawn = example_position 100 100 0 \<and> spawn_range example_spawn = 5
   \<and> mirrorAtSpawnBorder (Some example_spawn) (example_position 110 100 0) dir_west = dir_east
   \<and> pos (randomStep (example_env\<lparr>randomDirection := (\<lambda>m. dir_west)\<rparr>)
          (example_monster 1 (example_position 110 100 0) True))
       = example_position 111 100 0
   \<and> \<not> max \<bar>111 - 100\<bar> \<bar>100 - 100\<bar> \<le> spawn_range example_spawn + 1
   \<and> spawn_pos wide_spawn = example_position (- 16384) 100 0 \<and> spawn_range wide_spawn = 32767
   \<and> max \<bar>16384 - (- 16384)\<bar> \<bar>100 - 100\<bar> \<le> spawn_range wide_spawn + 1
   \<and> move_position (example_position 16384 100 0) dir_east = example_position 16385 100 0
   \<and> \<bar>pos_x (spawn_pos wide_spawn) - 16385\<bar> > spawn_range wide_spawn
   \<and> to_Coordinate (pos_x (spawn_pos wide_spawn) - 16385) = 32767
   \<and> mirrorAtSpawnBorder (Some wide_spawn) (example_position 16384 100 0) dir_east = dir_east
   \<and> pos (randomStep example_env
          ((example_monster 1 (example_position 16384 100 0) True)\<lparr>spawn := Some wide_spawn\<rparr>))
       = example_position 16385 100 0
   \<and> \<not> max \<bar>16385 - (- 16384)\<bar> \<bar>100 - 100\<bar> \<le> spawn_range wide_spawn + 1"
  by (simp add: randomStep_pos mirrorAtSpawnBorder_def to_Coordinate_def Let_def example_env_def
      example_monster_def example_position_def example_spawn_def wide_spawn_def)

text \<open>
  C6 (amended). For every monster with a spawn point that takes a random step, with \<open>c\<close>
  the position one step from the monster in the drawn direction: the direction is remapped
  by mirroring east and west exactly when the difference \<open>spawn.x - c.x\<close>, as stored in a
  16-bit \<^verbatim>\<open>Coordinate\<close>, is beyond the range in absolute value, and then north and south
  exactly when the difference \<open>spawn.y - c.y\<close>, stored likewise, is; a difference between
  -32768 and 32767 is stored as it is. The monster's new \<open>x\<close> is that of \<open>c\<close> or, if
  mirrored, the one on the other side of the monster, the same holds for \<open>y\<close>, and a
  direction without a component on the axis is unchanged. If the range is between 0 and
  32766 and the monster is within \<open>range + 1\<close> of its spawn point on both axes before the
  step, it is within \<open>range + 1\<close> on both axes after it.
\<close>

theorem random_step_mirrored_at_border:
  "spawn m = Some s \<longrightarrow>
     mirrorAtSpawnBorder (spawn m) (pos m) d =
       (if \<bar>to_Coordinate (pos_y (spawn_pos s) - pos_y (move_position (pos m) d))\<bar>
             > spawn_range s
        then mirrorNorthSouth else (\<lambda>e. e))
         ((if \<bar>to_Coordinate (pos_x (spawn_pos s) - pos_x (move_position (pos m) d))\<bar>
               > spawn_range s
           then mirrorEastWest else (\<lambda>e. e)) d)
     \<and> (- 32768 \<le> v \<and> v \<le> 32767 \<longrightarrow> to_Coordinate v = v)
     \<and> pos_x (move_position p (mirrorEastWest d)) - pos_x p = - (pos_x (move_position p d) - pos_x p)
     \<and> pos_y (move_position p (mirrorEastWest d)) = pos_y (move_position p d)
     \<and> pos_y (move_position p (mirrorNorthSouth d)) - pos_y p = - (pos_y (move_position p d) - pos_y p)
     \<and> pos_x (move_position p (mirrorNorthSouth d)) = pos_x (move_position p d)
     \<and> mirrorEastWest dir_north = dir_north \<and> mirrorEastWest dir_south = dir_south
     \<and> mirrorNorthSouth dir_east = dir_east \<and> mirrorNorthSouth dir_west = dir_west
     \<and> pos_x (pos (randomStep env m)) =
         (if \<bar>to_Coordinate
                (pos_x (spawn_pos s) - pos_x (move_position (pos m) (randomDirection env m)))\<bar>
               > spawn_range s
          then 2 * pos_x (pos m) - pos_x (move_position (pos m) (randomDirection env m))
          else pos_x (move_position (pos m) (randomDirection env m)))
     \<and> pos_y (pos (randomStep env m)) =
         (if \<bar>to_Coordinate
                (pos_y (spawn_pos s) - pos_y (move_position (pos m) (randomDirection env m)))\<bar>
               > spawn_range s
          then 2 * pos_y (pos m) - pos_y (move_position (pos m) (randomDirection env m))
          else pos_y (move_position (pos m) (randomDirection env m)))
     \<and> (0 \<le> spawn_range s \<and> spawn_range s \<le> 32766
          \<and> max \<bar>pos_x (pos m) - pos_x (spawn_pos s)\<bar> \<bar>pos_y (pos m) - pos_y (spawn_pos s)\<bar>
               \<le> spawn_range s + 1 \<longrightarrow>
          max \<bar>pos_x (pos (randomStep env m)) - pos_x (spawn_pos s)\<bar>
              \<bar>pos_y (pos (randomStep env m)) - pos_y (spawn_pos s)\<bar> \<le> spawn_range s + 1)"
proof (intro impI conjI)
  assume s: "spawn m = Some s"
  show "mirrorAtSpawnBorder (spawn m) (pos m) d =
       (if \<bar>to_Coordinate (pos_y (spawn_pos s) - pos_y (move_position (pos m) d))\<bar>
             > spawn_range s
        then mirrorNorthSouth else (\<lambda>e. e))
         ((if \<bar>to_Coordinate (pos_x (spawn_pos s) - pos_x (move_position (pos m) d))\<bar>
               > spawn_range s
           then mirrorEastWest else (\<lambda>e. e)) d)"
    by (simp add: s mirrorAtSpawnBorder_def Let_def)
  show "pos_x (move_position p (mirrorEastWest d)) - pos_x p = - (pos_x (move_position p d) - pos_x p)"
    by (simp add: mirrorEastWest_move)
  show "pos_y (move_position p (mirrorEastWest d)) = pos_y (move_position p d)"
    by (simp add: mirrorEastWest_move)
  show "pos_y (move_position p (mirrorNorthSouth d)) - pos_y p = - (pos_y (move_position p d) - pos_y p)"
    by (simp add: mirrorNorthSouth_move)
  show "pos_x (move_position p (mirrorNorthSouth d)) = pos_x (move_position p d)"
    by (simp add: mirrorNorthSouth_move)
  show "mirrorEastWest dir_north = dir_north" "mirrorEastWest dir_south = dir_south"
    "mirrorNorthSouth dir_east = dir_east" "mirrorNorthSouth dir_west = dir_west"
    by simp_all
  show "pos_x (pos (randomStep env m)) =
         (if \<bar>to_Coordinate
                (pos_x (spawn_pos s) - pos_x (move_position (pos m) (randomDirection env m)))\<bar>
               > spawn_range s
          then 2 * pos_x (pos m) - pos_x (move_position (pos m) (randomDirection env m))
          else pos_x (move_position (pos m) (randomDirection env m)))"
    by (simp only: randomStep_pos s mirrorAtSpawnBorder_position)
  show "pos_y (pos (randomStep env m)) =
         (if \<bar>to_Coordinate
                (pos_y (spawn_pos s) - pos_y (move_position (pos m) (randomDirection env m)))\<bar>
               > spawn_range s
          then 2 * pos_y (pos m) - pos_y (move_position (pos m) (randomDirection env m))
          else pos_y (move_position (pos m) (randomDirection env m)))"
    by (simp only: randomStep_pos s mirrorAtSpawnBorder_position)
next
  assume "- 32768 \<le> v \<and> v \<le> 32767"
  then show "to_Coordinate v = v"
    by (simp add: to_Coordinate_id)
next
  assume s: "spawn m = Some s"
    and h: "0 \<le> spawn_range s \<and> spawn_range s \<le> 32766
          \<and> max \<bar>pos_x (pos m) - pos_x (spawn_pos s)\<bar> \<bar>pos_y (pos m) - pos_y (spawn_pos s)\<bar>
               \<le> spawn_range s + 1"
  from h have "\<bar>pos_x (pos m) - pos_x (spawn_pos s)\<bar> \<le> spawn_range s + 1"
    and "\<bar>pos_y (pos m) - pos_y (spawn_pos s)\<bar> \<le> spawn_range s + 1"
    by simp_all
  with s h randomStep_bound [of m s env]
  show "max \<bar>pos_x (pos (randomStep env m)) - pos_x (spawn_pos s)\<bar>
              \<bar>pos_y (pos (randomStep env m)) - pos_y (spawn_pos s)\<bar> \<le> spawn_range s + 1"
    by simp
qed

text \<open>
  The specification's wander scenario: spawn point at \<open>(100, 100)\<close> with range 5, monster
  at \<open>(105, 100)\<close>, direction drawn east. The direction is remapped to west, the monster
  moves to \<open>(104, 100)\<close> and pays \<^verbatim>\<open>NP_WALK_COST\<close> action points.
\<close>

theorem random_step_mirrored_at_border_witness:
  "spawn (example_monster 1 (example_position 105 100 0) True) = Some example_spawn
   \<and> 0 \<le> spawn_range example_spawn \<and> spawn_range example_spawn \<le> 32766
   \<and> - 32768 \<le> (- 6 :: int) \<and> (- 6 :: int) \<le> 32767 \<and> to_Coordinate (- 6) = - 6
   \<and> mirrorAtSpawnBorder (Some example_spawn) (example_position 105 100 0) dir_east = dir_west
   \<and> randomStep example_env (example_monster 1 (example_position 105 100 0) True)
       = (example_monster 1 (example_position 104 100 0) True)\<lparr>actionPoints := - 5\<rparr>
   \<and> max \<bar>pos_x (pos (randomStep example_env (example_monster 1 (example_position 105 100 0) True)))
            - pos_x (spawn_pos example_spawn)\<bar>
         \<bar>pos_y (pos (randomStep example_env (example_monster 1 (example_position 105 100 0) True)))
            - pos_y (spawn_pos example_spawn)\<bar> \<le> spawn_range example_spawn + 1"
proof -
  note t = random_step_mirrored_at_border [of "example_monster 1 (example_position 105 100 0) True"
        example_spawn dir_east "- 6" "example_position 105 100 0" example_env]
  have s: "spawn (example_monster 1 (example_position 105 100 0) True) = Some example_spawn"
    by (simp add: example_monster_def)
  have h: "0 \<le> spawn_range example_spawn \<and> spawn_range example_spawn \<le> 32766
      \<and> max \<bar>pos_x (pos (example_monster 1 (example_position 105 100 0) True))
                - pos_x (spawn_pos example_spawn)\<bar>
             \<bar>pos_y (pos (example_monster 1 (example_position 105 100 0) True))
                - pos_y (spawn_pos example_spawn)\<bar> \<le> spawn_range example_spawn + 1"
    by (simp add: example_monster_def example_position_def example_spawn_def)
  from t s have n: "to_Coordinate (- 6) = - 6"
    by simp
  have a: "mirrorAtSpawnBorder (Some example_spawn) (example_position 105 100 0) dir_east = dir_west"
    by (simp add: mirrorAtSpawnBorder_def Let_def example_position_def example_spawn_def n)
  have b: "randomStep example_env (example_monster 1 (example_position 105 100 0) True)
       = (example_monster 1 (example_position 104 100 0) True)\<lparr>actionPoints := - 5\<rparr>"
    by (simp add: randomStep_def move_def increaseActionPoints_def mirrorAtSpawnBorder_def
        Let_def example_env_def example_monster_def example_position_def example_spawn_def n)
  from t s h
  have c: "max \<bar>pos_x (pos (randomStep example_env (example_monster 1 (example_position 105 100 0) True)))
            - pos_x (spawn_pos example_spawn)\<bar>
         \<bar>pos_y (pos (randomStep example_env (example_monster 1 (example_position 105 100 0) True)))
            - pos_y (spawn_pos example_spawn)\<bar> \<le> spawn_range example_spawn + 1"
    by blast
  from s h n a b c show ?thesis by simp
qed

subsection \<open>Two more scenarios of the specification, evaluated\<close>

text \<open>
  Graceful timeout. The first pass sends the logout and leaves the player in the
  population; once the connection is offline, the next pass removes the player from the
  field, runs the logout script, hands the player to the logout queue, tells the
  neighbours, erases the player and updates the player list.
\<close>

lemma graceful_timeout_scenario:
  "checkPlayers example_env timeout_world = timeout_world\<lparr>trace := [ShutdownSend 1]\<rparr>"
  "checkPlayers example_env
     (timeout_world\<lparr>Players := map (\<lambda>p. p\<lparr>online := False\<rparr>) (Players timeout_world)\<rparr>)
   = timeout_world
       \<lparr>Players := [],
        trace := [RemovePlayerFromField (example_position 10 10 0), OnLogout 1,
                  LogOutPlayersPushBack 1,
                  SendRemoveCharToVisiblePlayers 1 (example_position 10 10 0), UpdatePlayerList]\<rparr>"
  by (simp_all add: checkPlayers_def checkPlayer_def erase_def Let_def timeout_world_def
      example_eval)

text \<open>
  Script-overridden combat. The monster records the player as its enemy and as the last
  target seen, the script's \<^verbatim>\<open>enemyNear\<close> consumes the monster's tick, and
  \<^verbatim>\<open>characterAttacks\<close> is not called.
\<close>

lemma script_overridden_combat_scenario:
  "checkMonster scripted_env combat_world [] []
     ((example_monster 10 (example_position 50 50 0) True)\<lparr>right_tool := 7\<rparr>)
   = ((example_monster 10 (example_position 50 50 0) True)
        \<lparr>right_tool := 7, actionPoints := 1, fightPoints := 1, effects := 1, enemyid := 1,
         enemytype := player, lastTargetPosition := example_position 52 50 0,
         lastTargetSeen := True\<rparr>,
      [ScriptSetTarget 10, EnemyNear 10 1], False)"
  by (simp add: checkMonster_def notOnRoute_def setTarget_def attackRange_def
      getTargetsInRange_def findAllAliveCharactersInRangeOf_def inRange_def isPlayerNearby_def
      getPlayersInRangeOf_def increaseActionPoints_def increaseFightPoints_def checkEffects_def
      Let_def Character.truncate_def scripted_env_def combat_world_def example_eval)

end
